theory Spec2Isabelle
  imports Complex_Main
begin

section \<open>JavaScript values\<close>

text \<open>
  The SDK is TypeScript; its types are erased at run time and the source tests many of its
  arguments itself (\<^verbatim>\<open>typeof\<close>, truthiness, \<^verbatim>\<open>instanceof Date\<close>,
  \<^verbatim>\<open>Array.isArray\<close>). Values the source probes at run time are therefore modelled as
  dynamic values; values it never probes are modelled at their declared type.

  A JavaScript number is a double. Only its comparison with zero, its truthiness and its
  being \<^verbatim>\<open>NaN\<close> matter to this code, so a number is a real, an infinity or
  \<^verbatim>\<open>NaN\<close>; negative zero is not kept apart from zero (both are falsy and both are
  \<^verbatim>\<open><= 0\<close>). Where the code makes a number from text (\<^verbatim>\<open>parseInt\<close>), the
  rounding to a double is modelled.
\<close>

datatype jsnum = Finite real | PosInfinity | NegInfinity | NaN

text \<open>The operator \<^verbatim>\<open><=\<close> on two numbers: false as soon as one operand is \<^verbatim>\<open>NaN\<close>.\<close>

fun num_le :: "jsnum \<Rightarrow> jsnum \<Rightarrow> bool" where
  "num_le NaN _ = False"
| "num_le _ NaN = False"
| "num_le NegInfinity _ = True"
| "num_le _ PosInfinity = True"
| "num_le (Finite x) (Finite y) = (x \<le> y)"
| "num_le PosInfinity _ = False"
| "num_le _ NegInfinity = False"

fun num_truthy :: "jsnum \<Rightarrow> bool" where
  "num_truthy (Finite x) = (x \<noteq> 0)"
| "num_truthy NaN = False"
| "num_truthy _ = True"

text \<open>What the claims call a positive number: a number strictly above zero.\<close>

fun num_positive :: "jsnum \<Rightarrow> bool" where
  "num_positive (Finite x) = (0 < x)"
| "num_positive PosInfinity = True"
| "num_positive _ = False"

text \<open>
  A \<^verbatim>\<open>Date\<close> carries its time value in milliseconds, or none when it is an invalid
  date. A \<^verbatim>\<open>Buffer\<close> is its bytes. Arrays are dense; an object is the list of its
  own properties. Functions are not values of the model. Strings are lists of 8-bit
  characters, which leaves code units above U+00FF out of the model.
\<close>

datatype jsval =
    Undefined
  | Null
  | Boolean bool
  | Number jsnum
  | String string
  | Date "int option"
  | Buffer "nat list"
  | Array "jsval list"
  | Object "(string \<times> jsval) list"

fun truthy :: "jsval \<Rightarrow> bool" where
  "truthy Undefined = False"
| "truthy Null = False"
| "truthy (Boolean b) = b"
| "truthy (Number n) = num_truthy n"
| "truthy (String s) = (s \<noteq> [])"
| "truthy _ = True"

fun typeof :: "jsval \<Rightarrow> string" where
  "typeof Undefined = ''undefined''"
| "typeof (Boolean _) = ''boolean''"
| "typeof (Number _) = ''number''"
| "typeof (String _) = ''string''"
| "typeof _ = ''object''"

fun isArray :: "jsval \<Rightarrow> bool" where
  "isArray (Array _) = True"
| "isArray _ = False"

fun instanceofDate :: "jsval \<Rightarrow> bool" where
  "instanceofDate (Date _) = True"
| "instanceofDate _ = False"

fun isBuffer :: "jsval \<Rightarrow> bool" where
  "isBuffer (Buffer _) = True"
| "isBuffer _ = False"

fun nullish :: "jsval \<Rightarrow> bool" where
  "nullish Undefined = True"
| "nullish Null = True"
| "nullish _ = False"

text \<open>
  \<open>getProp v k\<close> is the property read \<^verbatim>\<open>v.k\<close> on a value that is not
  \<^verbatim>\<open>null\<close> or \<^verbatim>\<open>undefined\<close>: an own property of an object, and
  \<^verbatim>\<open>undefined\<close> otherwise (none of the names this code reads is a built-in member
  of strings, arrays, dates or buffers).
\<close>

fun getProp :: "jsval \<Rightarrow> string \<Rightarrow> jsval" where
  "getProp (Object kvs) k = (case map_of kvs k of None \<Rightarrow> Undefined | Some v \<Rightarrow> v)"
| "getProp _ k = Undefined"

text \<open>Optional chaining \<^verbatim>\<open>v?.k\<close>.\<close>

definition optProp :: "jsval \<Rightarrow> string \<Rightarrow> jsval" where
  "optProp v k = (if nullish v then Undefined else getProp v k)"

section \<open>Strings\<close>

fun startsWith :: "string \<Rightarrow> string \<Rightarrow> bool" where
  "startsWith s [] = True"
| "startsWith [] (p # ps) = False"
| "startsWith (c # cs) (p # ps) = (c = p \<and> startsWith cs ps)"

text \<open>\<^verbatim>\<open>s.includes(p)\<close>: \<open>p\<close> occurs in \<open>s\<close> as a contiguous run.\<close>

fun includesStr :: "string \<Rightarrow> string \<Rightarrow> bool" where
  "includesStr [] p = (p = [])"
| "includesStr (c # cs) p = (startsWith (c # cs) p \<or> includesStr cs p)"

text \<open>White space and line terminators of ECMAScript within the 8-bit range.\<close>

definition isWhiteSpace :: "char \<Rightarrow> bool" where
  "isWhiteSpace c = (of_char c \<in> {9, 10, 11, 12, 13, 32, 160 :: nat})"

definition trim :: "string \<Rightarrow> string" where
  "trim s = rev (dropWhile isWhiteSpace (rev (dropWhile isWhiteSpace s)))"

definition digitChar :: "nat \<Rightarrow> char" where
  "digitChar d = char_of (48 + d)"

text \<open>A natural number in decimal, as a template literal prints an array index or a status.\<close>

fun toString :: "nat \<Rightarrow> string" where
  "toString n = (if n < 10 then [digitChar n] else toString (n div 10) @ [digitChar (n mod 10)])"

declare toString.simps [simp del]

subsection \<open>parseInt\<close>

text \<open>
  \<^verbatim>\<open>parseInt(s)\<close> with no radix: leading white space is skipped, a sign is read, a
  \<^verbatim>\<open>0x\<close> prefix selects radix 16, the longest run of digits is read, and the result is
  \<^verbatim>\<open>NaN\<close> when that run is empty. The result is a double: the integer the digits
  denote, rounded to the nearest double with ties to the even mantissa, and an infinity
  from \<open>2 ^ 1024 - 2 ^ 970\<close> on. This is what V8, the engine of Node.js, computes;
  ECMAScript lets an engine approximate a decimal run after its twentieth significant digit.
\<close>

function bitLength :: "int \<Rightarrow> nat" where
  "bitLength n = (if n \<le> 0 then 0 else Suc (bitLength (n div 2)))"
  by pat_completeness auto
termination
  by (relation "measure nat") auto

declare bitLength.simps [simp del]

text \<open>
  The double nearest to a non-negative integer, none when that is an infinity. Below
  \<open>2 ^ 53\<close> every integer is a double. Above, the leading 53 bits are kept and rounded
  on the rest.
\<close>

definition toDouble :: "int \<Rightarrow> int option" where
  "toDouble n =
     (if n < 9007199254740992 then Some n
      else
        (let e = bitLength n - 53;
             q = n div 2 ^ e;
             r = n mod 2 ^ e;
             half = 2 ^ (e - 1);
             m = (if half < r \<or> (r = half \<and> odd q) then q + 1 else q)
         in if 2 ^ 1024 \<le> m * 2 ^ e then None else Some (m * 2 ^ e)))"

definition digitValue :: "char \<Rightarrow> nat option" where
  "digitValue c =
     (let n = (of_char c :: nat) in
      if 48 \<le> n \<and> n \<le> 57 then Some (n - 48)
      else if 97 \<le> n \<and> n \<le> 122 then Some (n - 87)
      else if 65 \<le> n \<and> n \<le> 90 then Some (n - 55)
      else None)"

definition isRadixDigit :: "nat \<Rightarrow> char \<Rightarrow> bool" where
  "isRadixDigit r c = (case digitValue c of None \<Rightarrow> False | Some d \<Rightarrow> d < r)"

fun digitsValue :: "int \<Rightarrow> int \<Rightarrow> string \<Rightarrow> int" where
  "digitsValue r acc [] = acc"
| "digitsValue r acc (c # cs) =
     digitsValue r (acc * r + (case digitValue c of None \<Rightarrow> 0 | Some d \<Rightarrow> int d)) cs"

definition parseInt :: "string \<Rightarrow> jsnum" where
  "parseInt inputString =
     (let S = dropWhile isWhiteSpace inputString;
          sign = (if startsWith S ''-'' then - 1 else 1 :: int);
          S1 = (if startsWith S ''+'' \<or> startsWith S ''-'' then tl S else S);
          hex = (startsWith S1 ''0x'' \<or> startsWith S1 ''0X'');
          R = (if hex then 16 else 10 :: nat);
          S2 = (if hex then drop 2 S1 else S1);
          Z = takeWhile (isRadixDigit R) S2
      in if Z = [] then NaN
         else (case toDouble (digitsValue (int R) 0 Z) of
                 None \<Rightarrow> (if sign < 0 then NegInfinity else PosInfinity)
               | Some v \<Rightarrow> Finite (of_int (sign * v))))"

subsection \<open>The pattern for an email address\<close>

text \<open>
  A regular expression as data, matched by derivatives against the whole string (the
  pattern of the source is anchored at both ends and has no flag).
\<close>

datatype regex =
    Zero
  | One
  | Atom "char \<Rightarrow> bool"
  | Alt regex regex
  | Seq regex regex
  | Star regex

definition Plus :: "regex \<Rightarrow> regex" where
  "Plus r = Seq r (Star r)"

fun nullable :: "regex \<Rightarrow> bool" where
  "nullable Zero = False"
| "nullable One = True"
| "nullable (Atom _) = False"
| "nullable (Alt r s) = (nullable r \<or> nullable s)"
| "nullable (Seq r s) = (nullable r \<and> nullable s)"
| "nullable (Star _) = True"

fun deriv :: "char \<Rightarrow> regex \<Rightarrow> regex" where
  "deriv c Zero = Zero"
| "deriv c One = Zero"
| "deriv c (Atom P) = (if P c then One else Zero)"
| "deriv c (Alt r s) = Alt (deriv c r) (deriv c s)"
| "deriv c (Seq r s) =
     (if nullable r then Alt (Seq (deriv c r) s) (deriv c s) else Seq (deriv c r) s)"
| "deriv c (Star r) = Seq (deriv c r) (Star r)"

fun regexTest :: "regex \<Rightarrow> string \<Rightarrow> bool" where
  "regexTest r [] = nullable r"
| "regexTest r (c # cs) = regexTest (deriv c r) cs"

text \<open>The strings a pattern matches.\<close>

inductive_set star :: "string set \<Rightarrow> string set" for A :: "string set" where
  star_empty: "[] \<in> star A"
| star_step: "u \<in> A \<Longrightarrow> v \<in> star A \<Longrightarrow> u @ v \<in> star A"

fun lang :: "regex \<Rightarrow> string set" where
  "lang Zero = {}"
| "lang One = {[]}"
| "lang (Atom P) = {[c] | c. P c}"
| "lang (Alt r s) = lang r \<union> lang s"
| "lang (Seq r s) = {u @ v | u v. u \<in> lang r \<and> v \<in> lang s}"
| "lang (Star r) = star (lang r)"

text \<open>The class \<^verbatim>\<open>[^\s@]\<close>.\<close>

definition notSpaceNorAt :: "char \<Rightarrow> bool" where
  "notSpaceNorAt c = (\<not> isWhiteSpace c \<and> c \<noteq> CHR ''@'')"

text \<open>\<^verbatim>\<open>/^[^\s@]+@[^\s@]+\.[^\s@]+$/\<close>\<close>

definition emailRegex :: regex where
  "emailRegex =
     Seq (Plus (Atom notSpaceNorAt))
       (Seq (Atom (\<lambda>c. c = CHR ''@''))
         (Seq (Plus (Atom notSpaceNorAt))
           (Seq (Atom (\<lambda>c. c = CHR ''.''))
             (Plus (Atom notSpaceNorAt)))))"

section \<open>The error taxonomy (errors.ts)\<close>

text \<open>
  One constructor for each class of \<^verbatim>\<open>errors.ts\<close>, holding the message, the fields the
  class adds and the request identifier. \<open>TypeError\<close> and \<open>RangeError\<close> are the errors of
  the JavaScript run time itself; they are not of the taxonomy.
\<close>

datatype error =
    AuthenticationError string "string option"
  | AuthorizationError string "string option"
  | NotFoundError string "string option"
  | ValidationError string "string option" "string option"
  | RateLimitError string "jsnum option" "string option"
  | NetworkError string "string option"
  | ServerError string nat "string option"
  | TimeoutError string "string option"
  | EmailAddressError string "string option"
  | EmailSendError string "string option"
  | TypeError string
  | RangeError string

text \<open>The constructor of \<^verbatim>\<open>NotFoundError\<close> builds its message from a resource and an id.\<close>

definition newNotFoundError :: "string \<Rightarrow> string option \<Rightarrow> string option \<Rightarrow> error" where
  "newNotFoundError resource ident requestId =
     NotFoundError
       (case ident of
          None \<Rightarrow> resource @ '' not found''
        | Some i \<Rightarrow>
            if i \<noteq> [] then resource @ '' with ID '' @ [CHR 0x27] @ i @ [CHR 0x27] @ '' not found''
            else resource @ '' not found'')
       requestId"

fun errorMessage :: "error \<Rightarrow> string" where
  "errorMessage (AuthenticationError m _) = m"
| "errorMessage (AuthorizationError m _) = m"
| "errorMessage (NotFoundError m _) = m"
| "errorMessage (ValidationError m _ _) = m"
| "errorMessage (RateLimitError m _ _) = m"
| "errorMessage (NetworkError m _) = m"
| "errorMessage (ServerError m _ _) = m"
| "errorMessage (TimeoutError m _) = m"
| "errorMessage (EmailAddressError m _) = m"
| "errorMessage (EmailSendError m _) = m"
| "errorMessage (TypeError m) = m"
| "errorMessage (RangeError m) = m"

text \<open>\<^verbatim>\<open>this.name = this.constructor.name\<close>\<close>

fun errorName :: "error \<Rightarrow> string" where
  "errorName (AuthenticationError _ _) = ''AuthenticationError''"
| "errorName (AuthorizationError _ _) = ''AuthorizationError''"
| "errorName (NotFoundError _ _) = ''NotFoundError''"
| "errorName (ValidationError _ _ _) = ''ValidationError''"
| "errorName (RateLimitError _ _ _) = ''RateLimitError''"
| "errorName (NetworkError _ _) = ''NetworkError''"
| "errorName (ServerError _ _ _) = ''ServerError''"
| "errorName (TimeoutError _ _) = ''TimeoutError''"
| "errorName (EmailAddressError _ _) = ''EmailAddressError''"
| "errorName (EmailSendError _ _) = ''EmailSendError''"
| "errorName (TypeError _) = ''TypeError''"
| "errorName (RangeError _) = ''RangeError''"

text \<open>The \<^verbatim>\<open>code\<close> of each class; the run-time errors have none.\<close>

fun errorCode :: "error \<Rightarrow> string option" where
  "errorCode (AuthenticationError _ _) = Some ''AUTHENTICATION_ERROR''"
| "errorCode (AuthorizationError _ _) = Some ''AUTHORIZATION_ERROR''"
| "errorCode (NotFoundError _ _) = Some ''NOT_FOUND_ERROR''"
| "errorCode (ValidationError _ _ _) = Some ''VALIDATION_ERROR''"
| "errorCode (RateLimitError _ _ _) = Some ''RATE_LIMIT_ERROR''"
| "errorCode (NetworkError _ _) = Some ''NETWORK_ERROR''"
| "errorCode (ServerError _ _ _) = Some ''SERVER_ERROR''"
| "errorCode (TimeoutError _ _) = Some ''TIMEOUT_ERROR''"
| "errorCode (EmailAddressError _ _) = Some ''EMAIL_ADDRESS_ERROR''"
| "errorCode (EmailSendError _ _) = Some ''EMAIL_SEND_ERROR''"
| "errorCode _ = None"

fun statusCode :: "error \<Rightarrow> nat option" where
  "statusCode (AuthenticationError _ _) = Some 401"
| "statusCode (AuthorizationError _ _) = Some 403"
| "statusCode (NotFoundError _ _) = Some 404"
| "statusCode (ValidationError _ _ _) = Some 400"
| "statusCode (RateLimitError _ _ _) = Some 429"
| "statusCode (NetworkError _ _) = Some 0"
| "statusCode (ServerError _ s _) = Some s"
| "statusCode (TimeoutError _ _) = Some 408"
| "statusCode (EmailAddressError _ _) = Some 400"
| "statusCode (EmailSendError _ _) = Some 400"
| "statusCode _ = None"

fun retryAfter :: "error \<Rightarrow> jsnum option" where
  "retryAfter (RateLimitError _ ra _) = ra"
| "retryAfter _ = None"

fun field :: "error \<Rightarrow> string option" where
  "field (ValidationError _ f _) = f"
| "field _ = None"

text \<open>Membership of the taxonomy: the classes that extend \<^verbatim>\<open>MaylError\<close>.\<close>

definition isMaylError :: "error \<Rightarrow> bool" where
  "isMaylError e = (errorCode e \<noteq> None)"

section \<open>The transport adapter (HTTPClient)\<close>

text \<open>
  What axios hands to the response interceptor when a request fails. The response is
  present when the server answered with an error status. \<open>data_error\<close> is the member
  \<^verbatim>\<open>error\<close> of the response body (absent when the body is empty or has no such member; a
  string by the declared type of the envelope), \<open>retry_after\<close> the header
  \<^verbatim>\<open>retry-after\<close>, and \<open>requestId\<close> the header \<^verbatim>\<open>X-Request-ID\<close> that the request
  interceptor put on the request.
\<close>

record axios_response =
  status :: nat
  data_error :: "string option"
  retry_after :: "string option"

record axios_error =
  code :: "string option"
  message :: string
  response :: "axios_response option"
  requestId :: "string option"

text \<open>The local \<^verbatim>\<open>message = (data as any)?.error || error.message\<close>.\<close>

definition responseMessage :: "axios_error \<Rightarrow> axios_response \<Rightarrow> string" where
  "responseMessage error r =
     (case data_error r of
        None \<Rightarrow> message error
      | Some m \<Rightarrow> if m \<noteq> [] then m else message error)"

definition handleAPIError :: "axios_error \<Rightarrow> error" where
  "handleAPIError error =
     (case response error of
        None \<Rightarrow>
          if code error = Some ''ECONNABORTED'' \<or> includesStr (message error) ''timeout''
          then TimeoutError ''Request timeout'' (requestId error)
          else NetworkError (''Network error: '' @ message error) (requestId error)
      | Some r \<Rightarrow>
          let msg = responseMessage error r in
          if status r = 401 then AuthenticationError msg (requestId error)
          else if status r = 403 then AuthorizationError msg (requestId error)
          else if status r = 404 then newNotFoundError ''Resource'' None (requestId error)
          else if status r = 400 then ValidationError msg None (requestId error)
          else if status r = 429 then
            RateLimitError msg
              (case retry_after r of
                 None \<Rightarrow> None
               | Some h \<Rightarrow> if h \<noteq> [] then Some (parseInt h) else None)
              (requestId error)
          else if status r = 500 \<or> status r = 502 \<or> status r = 503 \<or> status r = 504
          then ServerError msg (status r) (requestId error)
          else ServerError (''HTTP '' @ toString (status r) @ '': '' @ msg) (status r)
                 (requestId error))"

text \<open>
  The failure axios reports when no response arrived within the configured
  \<^verbatim>\<open>timeout\<close> milliseconds (axios 1.x, which \<^verbatim>\<open>package.json\<close> requires, with its
  default settings, as this client creates it).
\<close>

definition axiosTimeout :: "nat \<Rightarrow> string option \<Rightarrow> axios_error" where
  "axiosTimeout ms rid =
     \<lparr>code = Some ''ECONNABORTED'',
      message = ''timeout of '' @ toString ms @ ''ms exceeded'',
      response = None,
      requestId = rid\<rparr>"

text \<open>
  A request as the services hand it to the client. The query parameters of the list
  operations are kept as a list of names and values; their encoding into the URL is not
  modelled, only whether there are any.
\<close>

record request =
  http_method :: string
  endpoint :: string
  query :: "(string \<times> jsval) list"
  body :: jsval

text \<open>
  The envelope \<^verbatim>\<open>APIResponse<T>\<close> of a response that axios resolved. Its
  \<^verbatim>\<open>data\<close> is dynamic, since the services read its members at run time; the other
  members are at their declared types. A body that is not an object is outside the model.
\<close>

record envelope =
  data :: jsval
  success :: bool
  error_text :: "string option"
  envelope_requestId :: "string option"

datatype axios_result = Resolved envelope | Rejected axios_error

text \<open>
  The network is a parameter: what axios does with each request. Every operation returns
  the requests it issued together with what it returned or threw.
\<close>

type_synonym transport = "request \<Rightarrow> axios_result"

type_synonym 'a outcome = "request list \<times> (error + 'a)"

text \<open>
  The five methods of \<^verbatim>\<open>HTTPClient\<close> differ in the verb only: the response
  interceptor rejects with \<open>handleAPIError\<close> of the failure, and the method returns the
  body of a resolved response.
\<close>

definition httpRequest :: "transport \<Rightarrow> request \<Rightarrow> envelope outcome" where
  "httpRequest tr rq =
     ([rq], case tr rq of
              Resolved res \<Rightarrow> Inr res
            | Rejected failure \<Rightarrow> Inl (handleAPIError failure))"

definition http_get :: "transport \<Rightarrow> string \<Rightarrow> (string \<times> jsval) list \<Rightarrow> envelope outcome" where
  "http_get tr path params =
     httpRequest tr \<lparr>http_method = ''GET'', endpoint = path, query = params, body = Undefined\<rparr>"

definition http_post :: "transport \<Rightarrow> string \<Rightarrow> jsval \<Rightarrow> envelope outcome" where
  "http_post tr path b =
     httpRequest tr \<lparr>http_method = ''POST'', endpoint = path, query = [], body = b\<rparr>"

definition http_patch :: "transport \<Rightarrow> string \<Rightarrow> jsval \<Rightarrow> envelope outcome" where
  "http_patch tr path b =
     httpRequest tr \<lparr>http_method = ''PATCH'', endpoint = path, query = [], body = b\<rparr>"

definition http_delete :: "transport \<Rightarrow> string \<Rightarrow> envelope outcome" where
  "http_delete tr path =
     httpRequest tr \<lparr>http_method = ''DELETE'', endpoint = path, query = [], body = Undefined\<rparr>"

section \<open>Parsed results\<close>

text \<open>
  What an operation returns: the members of the response data, where \<open>NewDate v\<close> stands
  for \<^verbatim>\<open>new Date(v)\<close> (reading the wire text as a time is not modelled).
\<close>

datatype parsed =
    Raw jsval
  | NewDate jsval
  | Record "(string \<times> parsed) list"
  | Items "parsed list"

text \<open>The own enumerable properties that \<^verbatim>\<open>{...v}\<close> copies.\<close>

fun ownProps :: "jsval \<Rightarrow> (string \<times> jsval) list" where
  "ownProps (Object kvs) = kvs"
| "ownProps (Array xs) = zip (map toString [0..<length xs]) xs"
| "ownProps (String s) = zip (map toString [0..<length s]) (map (\<lambda>c. String [c]) s)"
| "ownProps (Buffer bs) = zip (map toString [0..<length bs]) (map (\<lambda>b. Number (Finite (real b))) bs)"
| "ownProps _ = []"

fun setProp :: "(string \<times> 'a) list \<Rightarrow> string \<Rightarrow> 'a \<Rightarrow> (string \<times> 'a) list" where
  "setProp [] k v = [(k, v)]"
| "setProp (p # ps) k v = (if fst p = k then (k, v) # ps else p # setProp ps k v)"

definition spread :: "jsval \<Rightarrow> (string \<times> parsed) list" where
  "spread v = map (\<lambda>(k, x). (k, Raw x)) (ownProps v)"

text \<open>The error of reading a member of \<^verbatim>\<open>null\<close> or \<^verbatim>\<open>undefined\<close>.\<close>

definition cannotRead :: "jsval \<Rightarrow> string \<Rightarrow> error" where
  "cannotRead v k =
     TypeError (''Cannot read properties of '' @ (if v = Null then ''null'' else ''undefined'')
                @ '' (reading '' @ [CHR 0x27] @ k @ [CHR 0x27] @ '')'')"

text \<open>A value already known to be a string, as a template literal interpolates it.\<close>

fun theString :: "jsval \<Rightarrow> string" where
  "theString (String s) = s"
| "theString _ = []"

fun elements :: "jsval \<Rightarrow> jsval list" where
  "elements (Array xs) = xs"
| "elements _ = []"

text \<open>\<^verbatim>\<open>a || b\<close> on an optional string and a fallback.\<close>

definition orElse :: "string option \<Rightarrow> string \<Rightarrow> string" where
  "orElse m fallback = (case m of None \<Rightarrow> fallback | Some t \<Rightarrow> if t \<noteq> [] then t else fallback)"

text \<open>Running a parse function over the items of a list response, up to the first throw.\<close>

fun mapItems :: "(jsval \<Rightarrow> error + parsed) \<Rightarrow> jsval list \<Rightarrow> error + parsed list" where
  "mapItems f [] = Inr []"
| "mapItems f (x # xs) =
     (case f x of
        Inl e \<Rightarrow> Inl e
      | Inr y \<Rightarrow> (case mapItems f xs of Inl e \<Rightarrow> Inl e | Inr ys \<Rightarrow> Inr (y # ys)))"

text \<open>
  \<^verbatim>\<open>{...response.data, items: response.data.items.map(item => parse(item))}\<close>
\<close>

definition parsePage :: "(jsval \<Rightarrow> error + parsed) \<Rightarrow> jsval \<Rightarrow> error + parsed" where
  "parsePage parse d =
     (if nullish d then Inl (cannotRead d ''items'')
      else case getProp d ''items'' of
             Array xs \<Rightarrow>
               (case mapItems parse xs of
                  Inl e \<Rightarrow> Inl e
                | Inr ys \<Rightarrow> Inr (Record (setProp (spread d) ''items'' (Items ys))))
           | Undefined \<Rightarrow> Inl (cannotRead Undefined ''map'')
           | Null \<Rightarrow> Inl (cannotRead Null ''map'')
           | _ \<Rightarrow> Inl (TypeError ''response.data.items.map is not a function''))"

section \<open>The email address service\<close>

text \<open>\<^verbatim>\<open>typeof v !== 'number' || v <= 0\<close>\<close>

fun notNumberOrLeZero :: "jsval \<Rightarrow> bool" where
  "notNumberOrLeZero (Number n) = num_le n (Finite 0)"
| "notNumberOrLeZero _ = True"

definition validateCreateOptions :: "jsval \<Rightarrow> error + unit" where
  "validateCreateOptions options =
     (if \<not> truthy options \<or> typeof options \<noteq> ''object''
      then Inl (ValidationError ''Options object is required'' None None)
      else if \<not> truthy (getProp options ''type'')
              \<or> getProp options ''type'' \<notin> set [String ''temporary'', String ''persistent'']
      then Inl (ValidationError
                  (''Type must be either '' @ [CHR 0x22] @ ''temporary'' @ [CHR 0x22]
                   @ '' or '' @ [CHR 0x22] @ ''persistent'' @ [CHR 0x22]) None None)
      else if truthy (getProp options ''prefix'') \<and> typeof (getProp options ''prefix'') \<noteq> ''string''
      then Inl (ValidationError ''Prefix must be a string'' None None)
      else if truthy (getProp options ''domain'') \<and> typeof (getProp options ''domain'') \<noteq> ''string''
      then Inl (ValidationError ''Domain must be a string'' None None)
      else if getProp options ''expirationMinutes'' \<noteq> Undefined
              \<and> notNumberOrLeZero (getProp options ''expirationMinutes'')
      then Inl (ValidationError ''Expiration minutes must be a positive number'' None None)
      else if getProp options ''expirationMinutes'' \<noteq> Undefined
              \<and> getProp options ''type'' = String ''persistent''
      then Inl (ValidationError
                  ''Expiration minutes cannot be set for persistent email addresses'' None None)
      else if truthy (getProp options ''metadata'') \<and> typeof (getProp options ''metadata'') \<noteq> ''object''
      then Inl (ValidationError ''Metadata must be an object'' None None)
      else Inr ())"

definition parseEmailAddress :: "jsval \<Rightarrow> error + parsed" where
  "parseEmailAddress d =
     (if nullish d then Inl (cannotRead d ''createdAt'')
      else Inr (Record
        (setProp
          (setProp (spread d) ''createdAt'' (NewDate (getProp d ''createdAt'')))
          ''expiresAt''
          (if truthy (getProp d ''expiresAt'') then NewDate (getProp d ''expiresAt'')
           else Raw Null))))"

text \<open>
  The tail every operation of this service shares: a failed envelope is thrown as an
  \<^verbatim>\<open>EmailAddressError\<close>, a successful one is parsed.
\<close>

definition addressResult ::
  "string \<Rightarrow> (jsval \<Rightarrow> error + parsed) \<Rightarrow> envelope outcome \<Rightarrow> parsed outcome" where
  "addressResult fallback parse call =
     (case call of
        (trace, Inl e) \<Rightarrow> (trace, Inl e)
      | (trace, Inr res) \<Rightarrow>
          if \<not> success res
          then (trace, Inl (EmailAddressError (orElse (error_text res) fallback) None))
          else (trace, parse (data res)))"

definition address_create :: "transport \<Rightarrow> jsval \<Rightarrow> parsed outcome" where
  "address_create tr options =
     (case validateCreateOptions options of
        Inl e \<Rightarrow> ([], Inl e)
      | Inr _ \<Rightarrow>
          addressResult ''Failed to create email address'' parseEmailAddress
            (http_post tr ''/email-addresses''
               (Object [(''type'', getProp options ''type''),
                        (''prefix'', getProp options ''prefix''),
                        (''domain'', getProp options ''domain''),
                        (''expirationMinutes'', getProp options ''expirationMinutes''),
                        (''metadata'', getProp options ''metadata'')])))"

definition address_get :: "transport \<Rightarrow> jsval \<Rightarrow> parsed outcome" where
  "address_get tr ident =
     (if \<not> truthy ident \<or> typeof ident \<noteq> ''string''
      then ([], Inl (ValidationError ''Email address ID is required'' None None))
      else addressResult ''Failed to get email address'' parseEmailAddress
             (http_get tr (''/email-addresses/'' @ theString ident) []))"

text \<open>\<^verbatim>\<open>if (v) params.append(name, v)\<close>\<close>

definition appendParam :: "string \<Rightarrow> jsval \<Rightarrow> (string \<times> jsval) list" where
  "appendParam name v = (if truthy v then [(name, v)] else [])"

definition address_list :: "transport \<Rightarrow> jsval \<Rightarrow> parsed outcome" where
  "address_list tr options =
     addressResult ''Failed to list email addresses'' (parsePage parseEmailAddress)
       (http_get tr ''/email-addresses''
          (appendParam ''type'' (optProp options ''type'')
           @ appendParam ''status'' (optProp options ''status'')
           @ appendParam ''page'' (optProp (optProp options ''pagination'') ''page'')
           @ appendParam ''limit'' (optProp (optProp options ''pagination'') ''limit'')))"

definition address_update :: "transport \<Rightarrow> jsval \<Rightarrow> jsval \<Rightarrow> parsed outcome" where
  "address_update tr ident updates =
     (if \<not> truthy ident \<or> typeof ident \<noteq> ''string''
      then ([], Inl (ValidationError ''Email address ID is required'' None None))
      else if \<not> truthy updates \<or> typeof updates \<noteq> ''object''
      then ([], Inl (ValidationError ''Updates object is required'' None None))
      else addressResult ''Failed to update email address'' parseEmailAddress
             (http_patch tr (''/email-addresses/'' @ theString ident) updates))"

definition address_delete :: "transport \<Rightarrow> jsval \<Rightarrow> parsed outcome" where
  "address_delete tr ident =
     (if \<not> truthy ident \<or> typeof ident \<noteq> ''string''
      then ([], Inl (ValidationError ''Email address ID is required'' None None))
      else addressResult ''Failed to delete email address'' (\<lambda>_. Inr (Raw Undefined))
             (http_delete tr (''/email-addresses/'' @ theString ident)))"

text \<open>
  \<^verbatim>\<open>additionalMinutes\<close> is a number by its declared type, and the source does not test
  its type.
\<close>

definition address_extend :: "transport \<Rightarrow> jsval \<Rightarrow> jsnum \<Rightarrow> parsed outcome" where
  "address_extend tr ident additionalMinutes =
     (if \<not> truthy ident \<or> typeof ident \<noteq> ''string''
      then ([], Inl (ValidationError ''Email address ID is required'' None None))
      else if \<not> num_truthy additionalMinutes \<or> num_le additionalMinutes (Finite 0)
      then ([], Inl (ValidationError ''Additional minutes must be a positive number'' None None))
      else addressResult ''Failed to extend email address'' parseEmailAddress
             (http_post tr (''/email-addresses/'' @ theString ident @ ''/extend'')
                (Object [(''additionalMinutes'', Number additionalMinutes)])))"

section \<open>The email service\<close>

definition validateEmailRecipient :: "jsval \<Rightarrow> string \<Rightarrow> error + unit" where
  "validateEmailRecipient recipient fld =
     (if \<not> truthy recipient \<or> typeof recipient \<noteq> ''object''
      then Inl (ValidationError (fld @ '' must be an object'') None None)
      else if \<not> truthy (getProp recipient ''email'')
              \<or> typeof (getProp recipient ''email'') \<noteq> ''string''
      then Inl (ValidationError (fld @ ''.email is required'') None None)
      else if \<not> regexTest emailRegex (theString (getProp recipient ''email''))
      then Inl (ValidationError (fld @ ''.email is not a valid email address'') None None)
      else if truthy (getProp recipient ''name'') \<and> typeof (getProp recipient ''name'') \<noteq> ''string''
      then Inl (ValidationError (fld @ ''.name must be a string'') None None)
      else Inr ())"

definition validateEmailAttachment :: "jsval \<Rightarrow> string \<Rightarrow> error + unit" where
  "validateEmailAttachment attachment fld =
     (if \<not> truthy attachment \<or> typeof attachment \<noteq> ''object''
      then Inl (ValidationError (fld @ '' must be an object'') None None)
      else if \<not> truthy (getProp attachment ''filename'')
              \<or> typeof (getProp attachment ''filename'') \<noteq> ''string''
      then Inl (ValidationError (fld @ ''.filename is required'') None None)
      else if \<not> truthy (getProp attachment ''contentType'')
              \<or> typeof (getProp attachment ''contentType'') \<noteq> ''string''
      then Inl (ValidationError (fld @ ''.contentType is required'') None None)
      else if \<not> truthy (getProp attachment ''content'')
      then Inl (ValidationError (fld @ ''.content is required'') None None)
      else if typeof (getProp attachment ''content'') \<noteq> ''string''
              \<and> \<not> isBuffer (getProp attachment ''content'')
      then Inl (ValidationError (fld @ ''.content must be a string or Buffer'') None None)
      else if truthy (getProp attachment ''cid'') \<and> typeof (getProp attachment ''cid'') \<noteq> ''string''
      then Inl (ValidationError (fld @ ''.cid must be a string'') None None)
      else Inr ())"

text \<open>
  \<^verbatim>\<open>xs.forEach((x, index) => validate(x, `name[${index}]`))\<close>: the elements in order,
  up to the first throw.
\<close>

fun forEachIndexed ::
  "(jsval \<Rightarrow> string \<Rightarrow> error + unit) \<Rightarrow> string \<Rightarrow> nat \<Rightarrow> jsval list \<Rightarrow> error + unit" where
  "forEachIndexed validate name index [] = Inr ()"
| "forEachIndexed validate name index (x # xs) =
     (case validate x (name @ ''['' @ toString index @ '']'') of
        Inl e \<Rightarrow> Inl e
      | Inr _ \<Rightarrow> forEachIndexed validate name (Suc index) xs)"

text \<open>
  \<^verbatim>\<open>if (options.cc) { options.cc.forEach(...) }\<close>, and the same for
  \<^verbatim>\<open>bcc\<close>. An array and a buffer have a \<^verbatim>\<open>forEach\<close> (a buffer runs it over
  its bytes, as numbers); any other truthy value has none.
\<close>

definition validateOptionalRecipients :: "string \<Rightarrow> jsval \<Rightarrow> error + unit" where
  "validateOptionalRecipients name v =
     (if truthy v then
        (case v of
           Array xs \<Rightarrow> forEachIndexed validateEmailRecipient name 0 xs
         | Buffer bs \<Rightarrow>
             forEachIndexed validateEmailRecipient name 0
               (map (\<lambda>b. Number (Finite (real b))) bs)
         | _ \<Rightarrow> Inl (TypeError (''options.'' @ name @ ''.forEach is not a function'')))
      else Inr ())"

definition validateAttachments :: "jsval \<Rightarrow> error + unit" where
  "validateAttachments v =
     (if truthy v then
        (if \<not> isArray v then Inl (ValidationError ''Attachments must be an array'' None None)
         else forEachIndexed validateEmailAttachment ''attachments'' 0 (elements v))
      else Inr ())"

text \<open>
  \<^verbatim>\<open>options.scheduledAt <= new Date()\<close>, reached only for a \<^verbatim>\<open>Date\<close>: the time
  values are compared, and an invalid date compares false.
\<close>

fun dateLe :: "jsval \<Rightarrow> int \<Rightarrow> bool" where
  "dateLe (Date (Some t)) now = (t \<le> now)"
| "dateLe _ now = False"

text \<open>The checks of \<^verbatim>\<open>validateSendOptions\<close> that follow the recipients.\<close>

definition validateSendContent :: "int \<Rightarrow> jsval \<Rightarrow> error + unit" where
  "validateSendContent now options =
     (if \<not> truthy (getProp options ''subject'')
         \<or> typeof (getProp options ''subject'') \<noteq> ''string''
         \<or> trim (theString (getProp options ''subject'')) = []
      then Inl (ValidationError ''Subject is required'' None None)
      else if \<not> truthy (getProp options ''text'') \<and> \<not> truthy (getProp options ''html'')
      then Inl (ValidationError ''Either text or HTML content is required'' None None)
      else if truthy (getProp options ''text'') \<and> typeof (getProp options ''text'') \<noteq> ''string''
      then Inl (ValidationError ''Text content must be a string'' None None)
      else if truthy (getProp options ''html'') \<and> typeof (getProp options ''html'') \<noteq> ''string''
      then Inl (ValidationError ''HTML content must be a string'' None None)
      else case validateAttachments (getProp options ''attachments'') of
        Inl e \<Rightarrow> Inl e
      | Inr _ \<Rightarrow>
          if truthy (getProp options ''scheduledAt'')
             \<and> \<not> instanceofDate (getProp options ''scheduledAt'')
          then Inl (ValidationError ''Scheduled at must be a Date object'' None None)
          else if truthy (getProp options ''scheduledAt'')
                  \<and> dateLe (getProp options ''scheduledAt'') now
          then Inl (ValidationError ''Scheduled time must be in the future'' None None)
          else if truthy (getProp options ''threadId'')
                  \<and> typeof (getProp options ''threadId'') \<noteq> ''string''
          then Inl (ValidationError ''Thread ID must be a string'' None None)
          else if truthy (getProp options ''metadata'')
                  \<and> typeof (getProp options ''metadata'') \<noteq> ''object''
          then Inl (ValidationError ''Metadata must be an object'' None None)
          else Inr ())"

text \<open>\<open>now\<close> is the instant \<^verbatim>\<open>new Date()\<close> yields when the schedule is checked.\<close>

definition validateSendOptions :: "int \<Rightarrow> jsval \<Rightarrow> error + unit" where
  "validateSendOptions now options =
     (if \<not> truthy options \<or> typeof options \<noteq> ''object''
      then Inl (ValidationError ''Options object is required'' None None)
      else if \<not> truthy (getProp options ''fromEmailId'')
              \<or> typeof (getProp options ''fromEmailId'') \<noteq> ''string''
      then Inl (ValidationError ''From email ID is required'' None None)
      else if \<not> truthy (getProp options ''to'') \<or> \<not> isArray (getProp options ''to'')
              \<or> length (elements (getProp options ''to'')) = 0
      then Inl (ValidationError ''At least one recipient is required'' None None)
      else case forEachIndexed validateEmailRecipient ''to'' 0 (elements (getProp options ''to'')) of
        Inl e \<Rightarrow> Inl e
      | Inr _ \<Rightarrow>
     (case validateOptionalRecipients ''cc'' (getProp options ''cc'') of
        Inl e \<Rightarrow> Inl e
      | Inr _ \<Rightarrow>
     (case validateOptionalRecipients ''bcc'' (getProp options ''bcc'') of
        Inl e \<Rightarrow> Inl e
      | Inr _ \<Rightarrow> validateSendContent now options)))"

subsection \<open>The request body of send\<close>

definition base64Char :: "nat \<Rightarrow> char" where
  "base64Char n =
     (''ABCDEFGHIJKLMNOPQRSTUVWXYZabcdefghijklmnopqrstuvwxyz0123456789+/'' ! (n mod 64))"

text \<open>\<^verbatim>\<open>buffer.toString('base64')\<close> on the bytes of a buffer.\<close>

fun base64 :: "nat list \<Rightarrow> string" where
  "base64 [] = []"
| "base64 [a] = [base64Char (a div 4), base64Char ((a mod 4) * 16), CHR ''='', CHR ''='']"
| "base64 [a, b] =
     [base64Char (a div 4), base64Char ((a mod 4) * 16 + b div 16),
      base64Char ((b mod 16) * 4), CHR ''='']"
| "base64 (a # b # c # rest) =
     [base64Char (a div 4), base64Char ((a mod 4) * 16 + b div 16),
      base64Char ((b mod 16) * 4 + c div 64), base64Char (c mod 64)] @ base64 rest"

definition processAttachment :: "jsval \<Rightarrow> jsval" where
  "processAttachment attachment =
     Object [(''filename'', getProp attachment ''filename''),
             (''contentType'', getProp attachment ''contentType''),
             (''content'',
                case getProp attachment ''content'' of
                  Buffer bs \<Rightarrow> String (base64 bs)
                | c \<Rightarrow> c),
             (''cid'', getProp attachment ''cid'')]"

text \<open>
  \<^verbatim>\<open>options.attachments?.map(this.processAttachment)\<close>: the optional chain stops at
  \<^verbatim>\<open>null\<close> and \<^verbatim>\<open>undefined\<close> only.
\<close>

definition attachmentsOfBody :: "jsval \<Rightarrow> error + jsval" where
  "attachmentsOfBody v =
     (if nullish v then Inr Undefined
      else case v of
             Array xs \<Rightarrow> Inr (Array (map processAttachment xs))
           | _ \<Rightarrow> Inl (TypeError ''options.attachments?.map is not a function''))"

text \<open>
  \<^verbatim>\<open>v?.toISOString()\<close> and \<^verbatim>\<open>v.toISOString()\<close>: an invalid date throws a
  \<^verbatim>\<open>RangeError\<close>. The ISO text of a valid date is not spelled out; the date itself
  stands for it.
\<close>

definition toISOString :: "string \<Rightarrow> jsval \<Rightarrow> error + jsval" where
  "toISOString expr v =
     (case v of
        Date (Some t) \<Rightarrow> Inr (Date (Some t))
      | Date None \<Rightarrow> Inl (RangeError ''Invalid time value'')
      | _ \<Rightarrow> Inl (TypeError (expr @ '' is not a function'')))"

definition sendRequestBody :: "jsval \<Rightarrow> error + jsval" where
  "sendRequestBody options =
     (case attachmentsOfBody (getProp options ''attachments'') of
        Inl e \<Rightarrow> Inl e
      | Inr atts \<Rightarrow>
         (case (if nullish (getProp options ''scheduledAt'') then Inr Undefined
                else toISOString ''options.scheduledAt?.toISOString''
                       (getProp options ''scheduledAt'')) of
            Inl e \<Rightarrow> Inl e
          | Inr sched \<Rightarrow>
              Inr (Object [(''fromEmailId'', getProp options ''fromEmailId''),
                           (''to'', getProp options ''to''),
                           (''cc'', getProp options ''cc''),
                           (''bcc'', getProp options ''bcc''),
                           (''subject'', getProp options ''subject''),
                           (''text'', getProp options ''text''),
                           (''html'', getProp options ''html''),
                           (''attachments'', atts),
                           (''headers'', getProp options ''headers''),
                           (''scheduledAt'', sched),
                           (''threadId'', getProp options ''threadId''),
                           (''metadata'', getProp options ''metadata'')])))"

definition parseSentEmail :: "jsval \<Rightarrow> error + parsed" where
  "parseSentEmail d =
     (if nullish d then Inl (cannotRead d ''sentAt'')
      else Inr (Record (setProp (spread d) ''sentAt'' (NewDate (getProp d ''sentAt'')))))"

text \<open>
  The tail every operation of this service shares: a failed envelope is thrown as an
  \<^verbatim>\<open>EmailSendError\<close>, a successful one is parsed.
\<close>

definition emailResult ::
  "string \<Rightarrow> (jsval \<Rightarrow> error + parsed) \<Rightarrow> envelope outcome \<Rightarrow> parsed outcome" where
  "emailResult fallback parse call =
     (case call of
        (trace, Inl e) \<Rightarrow> (trace, Inl e)
      | (trace, Inr res) \<Rightarrow>
          if \<not> success res
          then (trace, Inl (EmailSendError (orElse (error_text res) fallback) None))
          else (trace, parse (data res)))"

definition email_send :: "transport \<Rightarrow> int \<Rightarrow> jsval \<Rightarrow> parsed outcome" where
  "email_send tr now options =
     (case validateSendOptions now options of
        Inl e \<Rightarrow> ([], Inl e)
      | Inr _ \<Rightarrow>
         (case sendRequestBody options of
            Inl e \<Rightarrow> ([], Inl e)
          | Inr requestBody \<Rightarrow>
              emailResult ''Failed to send email'' parseSentEmail
                (http_post tr ''/emails/send'' requestBody)))"

definition email_get :: "transport \<Rightarrow> jsval \<Rightarrow> parsed outcome" where
  "email_get tr ident =
     (if \<not> truthy ident \<or> typeof ident \<noteq> ''string''
      then ([], Inl (ValidationError ''Email ID is required'' None None))
      else emailResult ''Failed to get email'' parseSentEmail
             (http_get tr (''/emails/'' @ theString ident) []))"

text \<open>\<^verbatim>\<open>if (v) params.append(name, v.toISOString())\<close>\<close>

definition appendDateParam :: "string \<Rightarrow> jsval \<Rightarrow> error + (string \<times> jsval) list" where
  "appendDateParam name v =
     (if truthy v then
        (case toISOString (''options.'' @ name @ ''.toISOString'') v of
           Inl e \<Rightarrow> Inl e
         | Inr isoText \<Rightarrow> Inr [(name, isoText)])
      else Inr [])"

definition email_list :: "transport \<Rightarrow> jsval \<Rightarrow> parsed outcome" where
  "email_list tr options =
     (case appendDateParam ''since'' (optProp options ''since'') of
        Inl e \<Rightarrow> ([], Inl e)
      | Inr since \<Rightarrow>
         (case appendDateParam ''until'' (optProp options ''until'') of
            Inl e \<Rightarrow> ([], Inl e)
          | Inr until \<Rightarrow>
              emailResult ''Failed to list emails'' (parsePage parseSentEmail)
                (http_get tr ''/emails''
                   (appendParam ''fromEmailId'' (optProp options ''fromEmailId'')
                    @ appendParam ''status'' (optProp options ''status'')
                    @ appendParam ''threadId'' (optProp options ''threadId'')
                    @ since @ until
                    @ appendParam ''page'' (optProp (optProp options ''pagination'') ''page'')
                    @ appendParam ''limit'' (optProp (optProp options ''pagination'') ''limit'')))))"

definition email_cancel :: "transport \<Rightarrow> jsval \<Rightarrow> parsed outcome" where
  "email_cancel tr ident =
     (if \<not> truthy ident \<or> typeof ident \<noteq> ''string''
      then ([], Inl (ValidationError ''Email ID is required'' None None))
      else emailResult ''Failed to cancel email'' (\<lambda>_. Inr (Raw Undefined))
             (http_post tr (''/emails/'' @ theString ident @ ''/cancel'') Undefined))"

definition email_resend :: "transport \<Rightarrow> jsval \<Rightarrow> parsed outcome" where
  "email_resend tr ident =
     (if \<not> truthy ident \<or> typeof ident \<noteq> ''string''
      then ([], Inl (ValidationError ''Email ID is required'' None None))
      else emailResult ''Failed to resend email'' parseSentEmail
             (http_post tr (''/emails/'' @ theString ident @ ''/resend'') Undefined))"

text \<open>\<^verbatim>\<open>d.k ? new Date(d.k) : undefined\<close>\<close>

definition optionalDate :: "jsval \<Rightarrow> string \<Rightarrow> parsed" where
  "optionalDate d k = (if truthy (getProp d k) then NewDate (getProp d k) else Raw Undefined)"

definition parseDeliveryStatus :: "jsval \<Rightarrow> error + parsed" where
  "parseDeliveryStatus d =
     (if nullish d then Inl (cannotRead d ''status'')
      else Inr (Record [(''status'', Raw (getProp d ''status'')),
                        (''deliveredAt'', optionalDate d ''deliveredAt''),
                        (''failureReason'', Raw (getProp d ''failureReason'')),
                        (''bounceType'', Raw (getProp d ''bounceType'')),
                        (''opens'', Raw (getProp d ''opens'')),
                        (''clicks'', Raw (getProp d ''clicks'')),
                        (''lastOpenedAt'', optionalDate d ''lastOpenedAt''),
                        (''lastClickedAt'', optionalDate d ''lastClickedAt'')]))"

definition email_getDeliveryStatus :: "transport \<Rightarrow> jsval \<Rightarrow> parsed outcome" where
  "email_getDeliveryStatus tr ident =
     (if \<not> truthy ident \<or> typeof ident \<noteq> ''string''
      then ([], Inl (ValidationError ''Email ID is required'' None None))
      else emailResult ''Failed to get delivery status'' parseDeliveryStatus
             (http_get tr (''/emails/'' @ theString ident @ ''/status'') []))"

section \<open>The facade client\<close>

record health =
  health_status :: string
  health_message :: jsval
  timestamp :: int
  apiVersion :: jsval
  accountId :: jsval

text \<open>
  The body of the \<^verbatim>\<open>try\<close> block of \<^verbatim>\<open>healthCheck\<close>. It reads
  \<^verbatim>\<open>response.data.message\<close> and nothing else of the envelope; the read throws when
  \<^verbatim>\<open>data\<close> is \<^verbatim>\<open>null\<close> or \<^verbatim>\<open>undefined\<close>.
\<close>

definition healthCheckTry :: "transport \<Rightarrow> int \<Rightarrow> health outcome" where
  "healthCheckTry tr now =
     (case http_get tr ''/health'' [] of
        (trace, Inl e) \<Rightarrow> (trace, Inl e)
      | (trace, Inr res) \<Rightarrow>
          if nullish (data res) then (trace, Inl (cannotRead (data res) ''message''))
          else (trace, Inr
            \<lparr>health_status = ''healthy'',
             health_message =
               (if truthy (getProp (data res) ''message'') then getProp (data res) ''message''
                else String ''API is healthy''),
             timestamp = now,
             apiVersion = getProp (data res) ''apiVersion'',
             accountId = getProp (data res) ''accountId''\<rparr>))"

text \<open>The \<^verbatim>\<open>catch\<close> block turns whatever was thrown into a result.\<close>

definition healthCheck :: "transport \<Rightarrow> int \<Rightarrow> health outcome" where
  "healthCheck tr now =
     (case healthCheckTry tr now of
        (trace, Inr h) \<Rightarrow> (trace, Inr h)
      | (trace, Inl e) \<Rightarrow>
          (trace, Inr
            \<lparr>health_status = ''unhealthy'',
             health_message =
               String (if errorMessage e \<noteq> [] then errorMessage e else ''Health check failed''),
             timestamp = now,
             apiVersion = Undefined,
             accountId = Undefined\<rparr>))"

text \<open>\<^verbatim>\<open>getAccountInfo\<close> reads the data of the envelope and none of its other members.\<close>

definition parseAccountInfo :: "jsval \<Rightarrow> error + parsed" where
  "parseAccountInfo d =
     (if nullish d then Inl (cannotRead d ''createdAt'')
      else Inr (Record
        (setProp
          (setProp (spread d) ''createdAt'' (NewDate (getProp d ''createdAt'')))
          ''lastActivity'' (NewDate (getProp d ''lastActivity'')))))"

definition getAccountInfo :: "transport \<Rightarrow> parsed outcome" where
  "getAccountInfo tr =
     (case http_get tr ''/account'' [] of
        (trace, Inl e) \<Rightarrow> (trace, Inl e)
      | (trace, Inr res) \<Rightarrow> (trace, parseAccountInfo (data res)))"

section \<open>Concrete inputs\<close>

text \<open>Failures as axios reports them, and transports, on which the results below are run.\<close>

definition rateLimited42 :: axios_error where
  "rateLimited42 =
     \<lparr>code = Some ''ERR_BAD_REQUEST'',
      message = ''Request failed with status code 429'',
      response =
        Some \<lparr>status = 429, data_error = Some ''Too many requests'', retry_after = Some ''42''\<rparr>,
      requestId = Some ''req_1''\<rparr>"

definition rateLimitedBeyondExact :: axios_error where
  "rateLimitedBeyondExact =
     \<lparr>code = Some ''ERR_BAD_REQUEST'',
      message = ''Request failed with status code 429'',
      response =
        Some \<lparr>status = 429, data_error = None, retry_after = Some ''9007199254740993''\<rparr>,
      requestId = None\<rparr>"

definition statusFailure :: "nat \<Rightarrow> axios_error" where
  "statusFailure s =
     \<lparr>code = Some ''ERR_BAD_REQUEST'',
      message = ''Request failed'',
      response = Some \<lparr>status = s, data_error = None, retry_after = None\<rparr>,
      requestId = None\<rparr>"

definition connectionRefused :: axios_error where
  "connectionRefused =
     \<lparr>code = Some ''ECONNREFUSED'',
      message = ''connect ECONNREFUSED 127.0.0.1:8080'',
      response = None,
      requestId = Some ''req_2''\<rparr>"

definition healthRequest :: request where
  "healthRequest = \<lparr>http_method = ''GET'', endpoint = ''/health'', query = [], body = Undefined\<rparr>"

definition timingOut :: transport where
  "timingOut rq = Rejected (axiosTimeout 30000 (Some ''req_3''))"

definition refusing :: transport where
  "refusing rq = Rejected connectionRefused"

definition failedWithoutData :: transport where
  "failedWithoutData rq =
     Resolved \<lparr>data = Undefined, success = False, error_text = Some ''Service unavailable'',
               envelope_requestId = None\<rparr>"

definition failedWithData :: transport where
  "failedWithData rq =
     Resolved \<lparr>data = Object [(''message'', String ''degraded'')], success = False,
               error_text = Some ''Quota exceeded'', envelope_requestId = None\<rparr>"

text \<open>
  The declared type of \<^verbatim>\<open>cc\<close> and \<^verbatim>\<open>bcc\<close> in \<^verbatim>\<open>SendEmailOptions\<close>: an array
  when present.
\<close>

definition arrayWhenPresent :: "jsval \<Rightarrow> bool" where
  "arrayWhenPresent v = (\<not> truthy v \<or> isArray v)"

text \<open>The recipient has an email string, and the string does not match the pattern.\<close>

definition hasBadEmail :: "jsval \<Rightarrow> bool" where
  "hasBadEmail recipient =
     (case getProp recipient ''email'' of
        String s \<Rightarrow> \<not> regexTest emailRegex s
      | _ \<Rightarrow> False)"

definition threeRecipients :: jsval where
  "threeRecipients =
     Object [(''fromEmailId'', String ''e1''),
             (''to'', Array [Object [(''email'', String ''ann@example.com'')],
                            Object [(''email'', String ''bob@example.com''), (''name'', String ''Bob'')],
                            Object [(''email'', String ''carol.example.com'')]]),
             (''subject'', String ''Hello''),
             (''text'', String ''Hi'')]"

definition noSenderBadRecipient :: jsval where
  "noSenderBadRecipient =
     Object [(''fromEmailId'', String ''''),
             (''to'', Array [Object [(''email'', String ''carol.example.com'')]]),
             (''subject'', String ''Hello''),
             (''text'', String ''Hi'')]"

definition carol :: jsval where
  "carol = Object [(''email'', String ''carol.example.com'')]"

definition pastSchedule :: jsval where
  "pastSchedule =
     Object [(''fromEmailId'', String ''e1''),
             (''to'', Array [Object [(''email'', String ''ann@example.com'')]]),
             (''subject'', String ''Hello''),
             (''text'', String ''Hi''),
             (''scheduledAt'', Date (Some 1000))]"

definition noContent :: jsval where
  "noContent =
     Object [(''fromEmailId'', String ''e1''),
             (''to'', Array [Object [(''email'', String ''ann@example.com'')]]),
             (''subject'', String ''Hello'')]"

definition noRecipientsNoContent :: jsval where
  "noRecipientsNoContent =
     Object [(''fromEmailId'', String ''e1''),
             (''to'', Array []),
             (''subject'', String ''Hello'')]"

definition invalidSchedule :: jsval where
  "invalidSchedule =
     Object [(''fromEmailId'', String ''e1''),
             (''to'', Array [Object [(''email'', String ''ann@example.com'')]]),
             (''subject'', String ''Hello''),
             (''text'', String ''Hi''),
             (''scheduledAt'', Date None)]"

definition ccNotArray :: jsval where
  "ccNotArray =
     Object [(''fromEmailId'', String ''e1''),
             (''to'', Array [Object [(''email'', String ''ann@example.com'')]]),
             (''cc'', Number (Finite 5)),
             (''subject'', String ''Hello''),
             (''text'', String ''Hi''),
             (''scheduledAt'', Date (Some 1000))]"

definition nanExpiration :: jsval where
  "nanExpiration = Object [(''type'', String ''temporary''), (''expirationMinutes'', Number NaN)]"

section \<open>The matcher is correct\<close>

lemma nullable_lang: "nullable r = ([] \<in> lang r)"
  by (induction r) (auto intro: star_empty)

lemma star_cons:
  "(c # w \<in> star A) = (\<exists>u v. w = u @ v \<and> c # u \<in> A \<and> v \<in> star A)"
proof
  assume "c # w \<in> star A"
  then show "\<exists>u v. w = u @ v \<and> c # u \<in> A \<and> v \<in> star A"
  proof (induction "c # w" arbitrary: w rule: star.induct)
    case (star_step u v)
    then show ?case
      by (cases u) auto
  qed
next
  assume "\<exists>u v. w = u @ v \<and> c # u \<in> A \<and> v \<in> star A"
  then obtain u v where "w = u @ v" "c # u \<in> A" "v \<in> star A" by blast
  then show "c # w \<in> star A"
    using star_step [of "c # u" A v] by simp
qed

lemma lang_Seq_cons:
  "(c # w \<in> lang (Seq r s)) =
     (([] \<in> lang r \<and> c # w \<in> lang s) \<or> (\<exists>u v. w = u @ v \<and> c # u \<in> lang r \<and> v \<in> lang s))"
proof
  assume "c # w \<in> lang (Seq r s)"
  then obtain u v where uv: "c # w = u @ v" "u \<in> lang r" "v \<in> lang s" by auto
  show "([] \<in> lang r \<and> c # w \<in> lang s) \<or> (\<exists>u v. w = u @ v \<and> c # u \<in> lang r \<and> v \<in> lang s)"
  proof (cases u)
    case Nil
    with uv show ?thesis by simp
  next
    case (Cons a u')
    with uv show ?thesis by auto
  qed
next
  assume "([] \<in> lang r \<and> c # w \<in> lang s) \<or> (\<exists>u v. w = u @ v \<and> c # u \<in> lang r \<and> v \<in> lang s)"
  then show "c # w \<in> lang (Seq r s)"
  proof
    assume "[] \<in> lang r \<and> c # w \<in> lang s"
    then have "[] @ (c # w) \<in> lang (Seq r s)"
      unfolding lang.simps by blast
    then show ?thesis by simp
  next
    assume "\<exists>u v. w = u @ v \<and> c # u \<in> lang r \<and> v \<in> lang s"
    then obtain u v where "w = u @ v" "c # u \<in> lang r" "v \<in> lang s" by blast
    then have "(c # u) @ v \<in> lang (Seq r s)" and "c # w = (c # u) @ v"
      unfolding lang.simps by (blast, simp)
    then show ?thesis by simp
  qed
qed

lemma deriv_lang: "(w \<in> lang (deriv c r)) = (c # w \<in> lang r)"
proof (induction r arbitrary: w)
  case (Seq r s)
  have "(w \<in> lang (deriv c (Seq r s)))
          = ((nullable r \<and> w \<in> lang (deriv c s))
             \<or> (\<exists>u v. w = u @ v \<and> u \<in> lang (deriv c r) \<and> v \<in> lang s))"
    by auto
  then show ?case
    using Seq by (simp add: lang_Seq_cons nullable_lang del: lang.simps deriv.simps) 
next
  case (Star r)
  then show ?case
    by (auto simp: star_cons)
qed auto

lemma regexTest_lang: "regexTest r w = (w \<in> lang r)"
  by (induction w arbitrary: r) (auto simp: nullable_lang deriv_lang)

lemma star_Atom: "star {[c] | c. P c} = {w. \<forall>x\<in>set w. P x}"
proof (intro set_eqI iffI)
  fix w assume "w \<in> star {[c] | c. P c}"
  then show "w \<in> {w. \<forall>x\<in>set w. P x}"
    by (induction rule: star.induct) auto
next
  fix w assume "w \<in> {w. \<forall>x\<in>set w. P x}"
  then show "w \<in> star {[c] | c. P c}"
  proof (induction w)
    case Nil
    show ?case by (rule star_empty)
  next
    case (Cons a w)
    then show ?case
      using star_step [of "[a]" "{[c] | c. P c}" w] by auto
  qed
qed

lemma lang_Plus_Atom: "lang (Plus (Atom P)) = {w. w \<noteq> [] \<and> (\<forall>x\<in>set w. P x)}"
proof (intro set_eqI iffI)
  fix w assume "w \<in> lang (Plus (Atom P))"
  then obtain c v where "w = [c] @ v" "P c" "v \<in> star {[c] | c. P c}"
    by (auto simp: Plus_def)
  then show "w \<in> {w. w \<noteq> [] \<and> (\<forall>x\<in>set w. P x)}"
    by (simp add: star_Atom)
next
  fix w assume "w \<in> {w. w \<noteq> [] \<and> (\<forall>x\<in>set w. P x)}"
  then obtain c v where w: "w = c # v" "P c" "\<forall>x\<in>set v. P x"
    by (cases w) auto
  then have "[c] \<in> {[c] | c. P c}" "v \<in> star {[c] | c. P c}"
    by (simp_all add: star_Atom)
  then have "[c] @ v \<in> lang (Plus (Atom P))"
    unfolding Plus_def lang.simps by blast
  with w show "w \<in> lang (Plus (Atom P))" by simp
qed

text \<open>
  The pattern matches exactly the strings \<open>a@b.c\<close> whose three parts are non-empty and
  hold neither white space nor an at sign.
\<close>

lemma emailRegex_matches:
  "regexTest emailRegex s =
     (\<exists>a b c. s = a @ ''@'' @ b @ ''.'' @ c
        \<and> a \<noteq> [] \<and> b \<noteq> [] \<and> c \<noteq> []
        \<and> (\<forall>x\<in>set (a @ b @ c). notSpaceNorAt x))"
  unfolding regexTest_lang emailRegex_def
  by (simp add: lang_Plus_Atom) (auto; blast)

section \<open>Properties of the transport adapter\<close>

lemma parseInt_Nil: "parseInt [] = NaN"
  by (simp add: parseInt_def)

lemma parseInt_42: "parseInt ''42'' = Finite 42"
  by code_simp

lemma parseInt_beyond_exact: "parseInt ''9007199254740993'' = Finite 9007199254740992"
  by code_simp

lemma decimal_digit:
  "isRadixDigit 10 c \<Longrightarrow> 48 \<le> (of_char c :: nat) \<and> (of_char c :: nat) \<le> 57"
  by (auto simp: isRadixDigit_def digitValue_def Let_def split: if_splits)

lemma decimal_digit_plain:
  assumes "isRadixDigit 10 c"
  shows "\<not> isWhiteSpace c" "c \<noteq> CHR ''-''" "c \<noteq> CHR ''+''" "c \<noteq> CHR ''x''" "c \<noteq> CHR ''X''"
  using decimal_digit [OF assms] by (auto simp: isWhiteSpace_def)

text \<open>
  On a non-empty run of decimal digits that denotes an integer below \<open>2 ^ 53\<close>,
  \<^verbatim>\<open>parseInt\<close> returns that integer.
\<close>

lemma parseInt_decimal:
  assumes "ds \<noteq> []" and "\<forall>c\<in>set ds. isRadixDigit 10 c"
    and "digitsValue 10 0 ds < 9007199254740992"
  shows "parseInt ds = Finite (of_int (digitsValue 10 0 ds))"
proof -
  obtain c cs where ds: "ds = c # cs"
    using assms(1) by (cases ds) auto
  have c: "isRadixDigit 10 c"
    using assms(2) ds by simp
  have drop: "dropWhile isWhiteSpace ds = ds"
    using decimal_digit_plain(1) [OF c] ds by simp
  have sign: "\<not> startsWith ds ''-''" "\<not> startsWith ds ''+''"
    using decimal_digit_plain(2,3) [OF c] ds by simp_all
  have hex: "\<not> startsWith ds ''0x''" "\<not> startsWith ds ''0X''"
  proof -
    show "\<not> startsWith ds ''0x''"
    proof (cases cs)
      case Nil
      with ds show ?thesis by simp
    next
      case (Cons d rest)
      then have "isRadixDigit 10 d" using assms(2) ds by simp
      from decimal_digit_plain(4) [OF this] ds Cons show ?thesis by simp
    qed
    show "\<not> startsWith ds ''0X''"
    proof (cases cs)
      case Nil
      with ds show ?thesis by simp
    next
      case (Cons d rest)
      then have "isRadixDigit 10 d" using assms(2) ds by simp
      from decimal_digit_plain(5) [OF this] ds Cons show ?thesis by simp
    qed
  qed
  have run: "takeWhile (isRadixDigit 10) ds = ds"
    using assms(2) by (simp add: takeWhile_eq_all_conv)
  have exact: "toDouble (digitsValue 10 0 ds) = Some (digitsValue 10 0 ds)"
    using assms(3) by (simp add: toDouble_def)
  show ?thesis
    using assms(1) by (simp add: parseInt_def Let_def drop sign hex run exact)
qed

lemma toString_418: "toString 418 = ''418''"
  by code_simp

text \<open>
  C1. When a response arrived, the class of the error that the response interceptor rejects
  with is fixed by the status: 401 gives an \<^verbatim>\<open>AuthenticationError\<close>, 403 an
  \<^verbatim>\<open>AuthorizationError\<close>, 404 a \<^verbatim>\<open>NotFoundError\<close>, 400 a \<^verbatim>\<open>ValidationError\<close>,
  429 a \<^verbatim>\<open>RateLimitError\<close> whose \<^verbatim>\<open>retryAfter\<close> is absent when the header
  \<^verbatim>\<open>retry-after\<close> is absent and is what \<^verbatim>\<open>parseInt\<close> reads from a non-empty
  header otherwise: the integer of its digits, as the double that holds it (42 for the
  header \<^verbatim>\<open>42\<close>; the integer itself below \<open>2 ^ 53\<close>, by \<open>parseInt_decimal\<close>, and
  the nearest double above); 500, 502, 503 and 504 give a
  \<^verbatim>\<open>ServerError\<close> with that status, and every other status a \<^verbatim>\<open>ServerError\<close> whose
  message begins with \<^verbatim>\<open>HTTP\<close> and the status. Two failures with the same status give
  errors of the same class, and this error is what a method of the client throws.
\<close>

theorem handleAPIError_by_status:
  "response e = Some r \<Longrightarrow>
     (status r = 401 \<longrightarrow>
        handleAPIError e = AuthenticationError (responseMessage e r) (requestId e)) \<and>
     (status r = 403 \<longrightarrow>
        handleAPIError e = AuthorizationError (responseMessage e r) (requestId e)) \<and>
     (status r = 404 \<longrightarrow>
        handleAPIError e = NotFoundError ''Resource not found'' (requestId e)) \<and>
     (status r = 400 \<longrightarrow>
        handleAPIError e = ValidationError (responseMessage e r) None (requestId e)) \<and>
     (status r = 429 \<longrightarrow>
        errorName (handleAPIError e) = ''RateLimitError'' \<and>
        (retry_after r = None \<longrightarrow> retryAfter (handleAPIError e) = None) \<and>
        (\<forall>h. retry_after r = Some h \<and> h \<noteq> [] \<longrightarrow>
           retryAfter (handleAPIError e) = Some (parseInt h)) \<and>
        (\<forall>h n. retry_after r = Some h \<and> parseInt h = Finite n \<longrightarrow>
           retryAfter (handleAPIError e) = Some (Finite n)) \<and>
        (retry_after r = Some ''42'' \<longrightarrow> retryAfter (handleAPIError e) = Some (Finite 42))) \<and>
     (status r \<in> {500, 502, 503, 504} \<longrightarrow>
        handleAPIError e = ServerError (responseMessage e r) (status r) (requestId e)) \<and>
     (status r \<notin> {401, 403, 404, 400, 429, 500, 502, 503, 504} \<longrightarrow>
        handleAPIError e =
          ServerError (''HTTP '' @ toString (status r) @ '': '' @ responseMessage e r)
            (status r) (requestId e)) \<and>
     (\<forall>e' r'. response e' = Some r' \<and> status r' = status r \<longrightarrow>
        errorName (handleAPIError e') = errorName (handleAPIError e)) \<and>
     (\<forall>tr rq. tr rq = Rejected e \<longrightarrow> httpRequest tr rq = ([rq], Inl (handleAPIError e)))"
  using parseInt_Nil parseInt_42
  by (auto simp: handleAPIError_def newNotFoundError_def httpRequest_def Let_def)

theorem handleAPIError_by_status_witness:
  "retryAfter (handleAPIError rateLimited42) = Some (Finite 42)
   \<and> handleAPIError (statusFailure 401) = AuthenticationError ''Request failed'' None
   \<and> handleAPIError (statusFailure 503) = ServerError ''Request failed'' 503 None
   \<and> handleAPIError (statusFailure 418) = ServerError ''HTTP 418: Request failed'' 418 None
   \<and> retryAfter (handleAPIError (statusFailure 429)) = None
   \<and> retryAfter (handleAPIError rateLimitedBeyondExact) = Some (Finite 9007199254740992)"
proof -
  have r42: "retryAfter (handleAPIError rateLimited42) = Some (Finite 42)"
    using parseInt_42 handleAPIError_by_status [of rateLimited42
      "\<lparr>status = 429, data_error = Some ''Too many requests'', retry_after = Some ''42''\<rparr>"]
    by (simp add: rateLimited42_def)
  have s401: "handleAPIError (statusFailure 401) = AuthenticationError ''Request failed'' None"
    using handleAPIError_by_status [of "statusFailure 401"
      "\<lparr>status = 401, data_error = None, retry_after = None\<rparr>"]
    by (simp add: statusFailure_def responseMessage_def)
  have s503: "handleAPIError (statusFailure 503) = ServerError ''Request failed'' 503 None"
    using handleAPIError_by_status [of "statusFailure 503"
      "\<lparr>status = 503, data_error = None, retry_after = None\<rparr>"]
    by (simp add: statusFailure_def responseMessage_def)
  have s418: "handleAPIError (statusFailure 418)
                = ServerError ''HTTP 418: Request failed'' 418 None"
    using toString_418 handleAPIError_by_status [of "statusFailure 418"
      "\<lparr>status = 418, data_error = None, retry_after = None\<rparr>"]
    by (simp add: statusFailure_def responseMessage_def)
  have s429: "retryAfter (handleAPIError (statusFailure 429)) = None"
    using handleAPIError_by_status [of "statusFailure 429"
      "\<lparr>status = 429, data_error = None, retry_after = None\<rparr>"]
    by (simp add: statusFailure_def)
  have big: "retryAfter (handleAPIError rateLimitedBeyondExact)
               = Some (Finite 9007199254740992)"
    using parseInt_beyond_exact handleAPIError_by_status [of rateLimitedBeyondExact
      "\<lparr>status = 429, data_error = None, retry_after = Some ''9007199254740993''\<rparr>"]
    by (simp add: rateLimitedBeyondExact_def)
  from r42 s401 s503 s418 s429 big show ?thesis
    by (intro conjI)
qed

text \<open>
  C2. When no response arrived, the error is a \<^verbatim>\<open>TimeoutError\<close> if the failure has the
  code \<^verbatim>\<open>ECONNABORTED\<close> or a message containing \<^verbatim>\<open>timeout\<close>, and a
  \<^verbatim>\<open>NetworkError\<close> otherwise. The failure axios reports for a request that got no
  response within the configured timeout is therefore raised as a \<^verbatim>\<open>TimeoutError\<close>,
  never as a \<^verbatim>\<open>NetworkError\<close>.
\<close>

theorem handleAPIError_no_response:
  "response e = None \<Longrightarrow>
     ((code e = Some ''ECONNABORTED'' \<or> includesStr (message e) ''timeout'') \<longrightarrow>
        handleAPIError e = TimeoutError ''Request timeout'' (requestId e)
        \<and> errorName (handleAPIError e) \<noteq> ''NetworkError'') \<and>
     (\<not> (code e = Some ''ECONNABORTED'' \<or> includesStr (message e) ''timeout'') \<longrightarrow>
        handleAPIError e = NetworkError (''Network error: '' @ message e) (requestId e)) \<and>
     (\<forall>ms rid. handleAPIError (axiosTimeout ms rid) = TimeoutError ''Request timeout'' rid) \<and>
     (\<forall>tr rq ms rid. tr rq = Rejected (axiosTimeout ms rid) \<longrightarrow>
        httpRequest tr rq = ([rq], Inl (TimeoutError ''Request timeout'' rid)))"
  by (auto simp: handleAPIError_def axiosTimeout_def httpRequest_def)

theorem handleAPIError_no_response_witness:
  "handleAPIError (axiosTimeout 30000 (Some ''req_3''))
     = TimeoutError ''Request timeout'' (Some ''req_3'')
   \<and> errorName (handleAPIError (axiosTimeout 30000 (Some ''req_3''))) \<noteq> ''NetworkError''
   \<and> handleAPIError connectionRefused
       = NetworkError ''Network error: connect ECONNREFUSED 127.0.0.1:8080'' (Some ''req_2'')
   \<and> httpRequest timingOut healthRequest
       = ([healthRequest], Inl (TimeoutError ''Request timeout'' (Some ''req_3'')))"
  using handleAPIError_no_response [of "axiosTimeout 30000 (Some ''req_3'')"]
        handleAPIError_no_response [of connectionRefused]
  by (simp add: axiosTimeout_def connectionRefused_def timingOut_def)

section \<open>Properties of the email address service\<close>

lemma not_positive_iff: "(\<not> num_truthy m \<or> num_le m (Finite 0)) = (\<not> num_positive m)"
  by (cases m) auto

text \<open>
  C6. An \<^verbatim>\<open>extend\<close> call whose \<^verbatim>\<open>additionalMinutes\<close> is at most zero throws a
  \<^verbatim>\<open>ValidationError\<close> and issues no request, whatever the id; and whenever
  \<^verbatim>\<open>extend\<close> issues a request, \<^verbatim>\<open>additionalMinutes\<close> is strictly positive.
\<close>

theorem extend_requires_positive:
  "(num_le m (Finite 0) \<longrightarrow>
      (\<exists>msg. address_extend tr ident m = ([], Inl (ValidationError msg None None)))) \<and>
   (fst (address_extend tr ident m) \<noteq> [] \<longrightarrow> num_positive m)"
  using not_positive_iff [of m]
  by (auto simp: address_extend_def)

theorem extend_requires_positive_witness:
  "num_le (Finite 0) (Finite 0)
   \<and> address_extend refusing (String ''e1'') (Finite 0)
       = ([], Inl (ValidationError ''Additional minutes must be a positive number'' None None))
   \<and> fst (address_extend refusing (String ''e1'') (Finite 30)) \<noteq> []
   \<and> num_positive (Finite 30)"
  using extend_requires_positive [of "Finite 0" refusing "String ''e1''"]
        extend_requires_positive [of "Finite 30" refusing "String ''e1''"]
  by (simp add: address_extend_def http_post_def httpRequest_def addressResult_def refusing_def)

section \<open>Failed envelopes and transport failures in the operations\<close>

lemmas http_defs = http_get_def http_post_def http_patch_def http_delete_def httpRequest_def

lemmas operation_defs =
  address_create_def address_get_def address_list_def address_update_def address_delete_def
  address_extend_def email_send_def email_get_def email_list_def email_cancel_def
  email_resend_def email_getDeliveryStatus_def addressResult_def emailResult_def

lemma handleAPIError_message_nonempty:
  "message e \<noteq> [] \<Longrightarrow> errorMessage (handleAPIError e) \<noteq> []"
  by (auto simp: handleAPIError_def newNotFoundError_def responseMessage_def Let_def
           split: option.splits)

text \<open>
  C3, as the claim states it, fails: \<^verbatim>\<open>healthCheck\<close> is a public operation, and on an
  envelope with \<^verbatim>\<open>success\<close> false (and data present) it returns normally, with the
  status \<^verbatim>\<open>healthy\<close>.
\<close>

theorem healthCheck_failed_envelope_counterexample:
  "failedWithData healthRequest
     = Resolved \<lparr>data = Object [(''message'', String ''degraded'')], success = False,
                 error_text = Some ''Quota exceeded'', envelope_requestId = None\<rparr>
   \<and> healthCheck failedWithData 0
     = ([healthRequest],
        Inr \<lparr>health_status = ''healthy'', health_message = String ''degraded'',
             timestamp = 0, apiVersion = Undefined, accountId = Undefined\<rparr>)"
  by (simp add: healthCheck_def healthCheckTry_def http_defs failedWithData_def healthRequest_def)

text \<open>
  \<^verbatim>\<open>getAccountInfo\<close>, unlike the operations of the two services, does not test
  \<^verbatim>\<open>success\<close> either: on a failed envelope it returns the parsed data, or throws a
  \<^verbatim>\<open>TypeError\<close> when the envelope has no data.
\<close>

lemma getAccountInfo_failed_envelope:
  "getAccountInfo failedWithData
     = ([\<lparr>http_method = ''GET'', endpoint = ''/account'', query = [], body = Undefined\<rparr>],
        Inr (Record [(''message'', Raw (String ''degraded'')),
                     (''createdAt'', NewDate Undefined),
                     (''lastActivity'', NewDate Undefined)]))"
  by (simp add: getAccountInfo_def parseAccountInfo_def spread_def http_defs failedWithData_def)

lemma getAccountInfo_failed_envelope_without_data:
  "getAccountInfo failedWithoutData
     = ([\<lparr>http_method = ''GET'', endpoint = ''/account'', query = [], body = Undefined\<rparr>],
        Inl (TypeError (''Cannot read properties of undefined (reading ''
                        @ [CHR 0x27] @ ''createdAt'' @ [CHR 0x27] @ '')'')))"
  by (simp add: getAccountInfo_def parseAccountInfo_def http_defs failedWithoutData_def
                cannotRead_def)

text \<open>
  C3, amended. For every operation of the email address service and of the email service:
  when the operation issued its request and the envelope that came back has
  \<^verbatim>\<open>success\<close> false, the operation throws exactly an \<^verbatim>\<open>EmailAddressError\<close>
  (address operations) or an \<^verbatim>\<open>EmailSendError\<close> (email operations), whose message is the
  envelope's error text when that is a non-empty string and the fallback of the operation
  otherwise; it does not return.
\<close>

theorem failed_envelope_raises_domain_error:
  "tr rq = Resolved env \<Longrightarrow> \<not> success env \<Longrightarrow>
     (\<forall>x. fst (address_create tr x) = [rq] \<longrightarrow>
        snd (address_create tr x)
          = Inl (EmailAddressError (orElse (error_text env) ''Failed to create email address'') None)) \<and>
     (\<forall>x. fst (address_get tr x) = [rq] \<longrightarrow>
        snd (address_get tr x)
          = Inl (EmailAddressError (orElse (error_text env) ''Failed to get email address'') None)) \<and>
     (\<forall>x. fst (address_list tr x) = [rq] \<longrightarrow>
        snd (address_list tr x)
          = Inl (EmailAddressError (orElse (error_text env) ''Failed to list email addresses'') None)) \<and>
     (\<forall>x y. fst (address_update tr x y) = [rq] \<longrightarrow>
        snd (address_update tr x y)
          = Inl (EmailAddressError (orElse (error_text env) ''Failed to update email address'') None)) \<and>
     (\<forall>x. fst (address_delete tr x) = [rq] \<longrightarrow>
        snd (address_delete tr x)
          = Inl (EmailAddressError (orElse (error_text env) ''Failed to delete email address'') None)) \<and>
     (\<forall>x m. fst (address_extend tr x m) = [rq] \<longrightarrow>
        snd (address_extend tr x m)
          = Inl (EmailAddressError (orElse (error_text env) ''Failed to extend email address'') None)) \<and>
     (\<forall>x t. fst (email_send tr t x) = [rq] \<longrightarrow>
        snd (email_send tr t x)
          = Inl (EmailSendError (orElse (error_text env) ''Failed to send email'') None)) \<and>
     (\<forall>x. fst (email_get tr x) = [rq] \<longrightarrow>
        snd (email_get tr x)
          = Inl (EmailSendError (orElse (error_text env) ''Failed to get email'') None)) \<and>
     (\<forall>x. fst (email_list tr x) = [rq] \<longrightarrow>
        snd (email_list tr x)
          = Inl (EmailSendError (orElse (error_text env) ''Failed to list emails'') None)) \<and>
     (\<forall>x. fst (email_cancel tr x) = [rq] \<longrightarrow>
        snd (email_cancel tr x)
          = Inl (EmailSendError (orElse (error_text env) ''Failed to cancel email'') None)) \<and>
     (\<forall>x. fst (email_resend tr x) = [rq] \<longrightarrow>
        snd (email_resend tr x)
          = Inl (EmailSendError (orElse (error_text env) ''Failed to resend email'') None)) \<and>
     (\<forall>x. fst (email_getDeliveryStatus tr x) = [rq] \<longrightarrow>
        snd (email_getDeliveryStatus tr x)
          = Inl (EmailSendError (orElse (error_text env) ''Failed to get delivery status'') None)) \<and>
     orElse None ''fallback'' = ''fallback'' \<and> orElse (Some []) ''fallback'' = ''fallback'' \<and>
     (\<forall>c cs. orElse (Some (c # cs)) ''fallback'' = c # cs)"
  by (auto simp: operation_defs http_defs orElse_def split: sum.splits if_splits)

theorem failed_envelope_raises_domain_error_witness:
  "failedWithoutData
     \<lparr>http_method = ''GET'', endpoint = ''/email-addresses/e1'', query = [], body = Undefined\<rparr>
     = Resolved \<lparr>data = Undefined, success = False, error_text = Some ''Service unavailable'',
                 envelope_requestId = None\<rparr>
   \<and> address_get failedWithoutData (String ''e1'')
     = ([\<lparr>http_method = ''GET'', endpoint = ''/email-addresses/e1'', query = [],
          body = Undefined\<rparr>],
        Inl (EmailAddressError ''Service unavailable'' None))
   \<and> email_cancel failedWithoutData (String ''m1'')
     = ([\<lparr>http_method = ''POST'', endpoint = ''/emails/m1/cancel'', query = [],
          body = Undefined\<rparr>],
        Inl (EmailSendError ''Service unavailable'' None))"
  using failed_envelope_raises_domain_error [of failedWithoutData
          "\<lparr>http_method = ''GET'', endpoint = ''/email-addresses/e1'', query = [],
            body = Undefined\<rparr>"
          "\<lparr>data = Undefined, success = False, error_text = Some ''Service unavailable'',
            envelope_requestId = None\<rparr>"]
        failed_envelope_raises_domain_error [of failedWithoutData
          "\<lparr>http_method = ''POST'', endpoint = ''/emails/m1/cancel'', query = [],
            body = Undefined\<rparr>"
          "\<lparr>data = Undefined, success = False, error_text = Some ''Service unavailable'',
            envelope_requestId = None\<rparr>"]
  by (simp add: failedWithoutData_def address_get_def email_cancel_def addressResult_def
        emailResult_def http_defs orElse_def)

section \<open>Properties of healthCheck\<close>

text \<open>
  C9. \<^verbatim>\<open>healthCheck\<close> never throws: whatever the transport does, it issues the one
  request and returns a result. When the transport fails, the result is
  \<^verbatim>\<open>unhealthy\<close> and carries the message of the error the adapter raised (the text
  \<^verbatim>\<open>Health check failed\<close> stands in for an empty message, which the adapter does not
  produce from a failure whose own message is non-empty). Every other operation that meets
  a transport failure on the request it issued throws the adapter's error.
\<close>

theorem healthCheck_never_raises:
  "(\<exists>h. healthCheck tr now = ([healthRequest], Inr h)) \<and>
   (\<forall>e. tr healthRequest = Rejected e \<longrightarrow>
      healthCheck tr now
        = ([healthRequest],
           Inr \<lparr>health_status = ''unhealthy'',
                health_message =
                  String (if errorMessage (handleAPIError e) \<noteq> []
                          then errorMessage (handleAPIError e) else ''Health check failed''),
                timestamp = now, apiVersion = Undefined, accountId = Undefined\<rparr>)) \<and>
   (\<forall>e. tr healthRequest = Rejected e \<and> message e \<noteq> [] \<longrightarrow>
      healthCheck tr now
        = ([healthRequest],
           Inr \<lparr>health_status = ''unhealthy'',
                health_message = String (errorMessage (handleAPIError e)),
                timestamp = now, apiVersion = Undefined, accountId = Undefined\<rparr>)) \<and>
   (\<forall>rq e. tr rq = Rejected e \<longrightarrow>
      (\<forall>x. fst (address_create tr x) = [rq] \<longrightarrow>
         snd (address_create tr x) = Inl (handleAPIError e)) \<and>
      (\<forall>x. fst (address_get tr x) = [rq] \<longrightarrow>
         snd (address_get tr x) = Inl (handleAPIError e)) \<and>
      (\<forall>x. fst (address_list tr x) = [rq] \<longrightarrow>
         snd (address_list tr x) = Inl (handleAPIError e)) \<and>
      (\<forall>x y. fst (address_update tr x y) = [rq] \<longrightarrow>
         snd (address_update tr x y) = Inl (handleAPIError e)) \<and>
      (\<forall>x. fst (address_delete tr x) = [rq] \<longrightarrow>
         snd (address_delete tr x) = Inl (handleAPIError e)) \<and>
      (\<forall>x m. fst (address_extend tr x m) = [rq] \<longrightarrow>
         snd (address_extend tr x m) = Inl (handleAPIError e)) \<and>
      (\<forall>x t. fst (email_send tr t x) = [rq] \<longrightarrow>
         snd (email_send tr t x) = Inl (handleAPIError e)) \<and>
      (\<forall>x. fst (email_get tr x) = [rq] \<longrightarrow>
         snd (email_get tr x) = Inl (handleAPIError e)) \<and>
      (\<forall>x. fst (email_list tr x) = [rq] \<longrightarrow>
         snd (email_list tr x) = Inl (handleAPIError e)) \<and>
      (\<forall>x. fst (email_cancel tr x) = [rq] \<longrightarrow>
         snd (email_cancel tr x) = Inl (handleAPIError e)) \<and>
      (\<forall>x. fst (email_resend tr x) = [rq] \<longrightarrow>
         snd (email_resend tr x) = Inl (handleAPIError e)) \<and>
      (\<forall>x. fst (email_getDeliveryStatus tr x) = [rq] \<longrightarrow>
         snd (email_getDeliveryStatus tr x) = Inl (handleAPIError e)) \<and>
      (fst (getAccountInfo tr) = [rq] \<longrightarrow> snd (getAccountInfo tr) = Inl (handleAPIError e)))"
proof (intro conjI allI impI)
  show "\<exists>h. healthCheck tr now = ([healthRequest], Inr h)"
    by (auto simp: healthCheck_def healthCheckTry_def http_defs healthRequest_def
             split: axios_result.splits)
next
  fix e assume "tr healthRequest = Rejected e"
  then show "healthCheck tr now
        = ([healthRequest],
           Inr \<lparr>health_status = ''unhealthy'',
                health_message =
                  String (if errorMessage (handleAPIError e) \<noteq> []
                          then errorMessage (handleAPIError e) else ''Health check failed''),
                timestamp = now, apiVersion = Undefined, accountId = Undefined\<rparr>)"
    by (simp add: healthCheck_def healthCheckTry_def http_defs healthRequest_def)
next
  fix e assume "tr healthRequest = Rejected e \<and> message e \<noteq> []"
  then show "healthCheck tr now
        = ([healthRequest],
           Inr \<lparr>health_status = ''unhealthy'',
                health_message = String (errorMessage (handleAPIError e)),
                timestamp = now, apiVersion = Undefined, accountId = Undefined\<rparr>)"
    using handleAPIError_message_nonempty [of e]
    by (simp add: healthCheck_def healthCheckTry_def http_defs healthRequest_def)
qed (auto simp: operation_defs getAccountInfo_def http_defs split: sum.splits if_splits)

theorem healthCheck_never_raises_witness:
  "refusing healthRequest = Rejected connectionRefused
   \<and> message connectionRefused \<noteq> []
   \<and> healthCheck refusing 5
       = ([healthRequest],
          Inr \<lparr>health_status = ''unhealthy'',
               health_message = String ''Network error: connect ECONNREFUSED 127.0.0.1:8080'',
               timestamp = 5, apiVersion = Undefined, accountId = Undefined\<rparr>)
   \<and> address_get refusing (String ''e1'')
       = ([\<lparr>http_method = ''GET'', endpoint = ''/email-addresses/e1'', query = [],
            body = Undefined\<rparr>],
          Inl (NetworkError ''Network error: connect ECONNREFUSED 127.0.0.1:8080''
                 (Some ''req_2'')))"
  using healthCheck_never_raises [of refusing 5]
  by (simp add: refusing_def connectionRefused_def healthCheck_def healthCheckTry_def http_defs
        healthRequest_def handleAPIError_def address_get_def addressResult_def)

text \<open>
  C10, as the claim states it, fails: an envelope that came back without a transport
  failure but has no data makes the read of \<^verbatim>\<open>response.data.message\<close> throw, and the
  \<^verbatim>\<open>catch\<close> block of \<^verbatim>\<open>healthCheck\<close> returns \<^verbatim>\<open>unhealthy\<close>.
\<close>

theorem healthCheck_without_data_counterexample:
  "failedWithoutData healthRequest
     = Resolved \<lparr>data = Undefined, success = False, error_text = Some ''Service unavailable'',
                 envelope_requestId = None\<rparr>
   \<and> healthCheck failedWithoutData 0
     = ([healthRequest],
        Inr \<lparr>health_status = ''unhealthy'',
             health_message =
               String (''Cannot read properties of undefined (reading ''
                       @ [CHR 0x27] @ ''message'' @ [CHR 0x27] @ '')''),
             timestamp = 0, apiVersion = Undefined, accountId = Undefined\<rparr>)"
  by (simp add: healthCheck_def healthCheckTry_def http_defs failedWithoutData_def
                healthRequest_def cannotRead_def)

text \<open>
  C10, amended. \<^verbatim>\<open>healthCheck\<close> reads neither \<^verbatim>\<open>success\<close> nor \<^verbatim>\<open>error\<close> of
  the envelope: for every envelope that came back without a transport failure and whose
  data is neither \<^verbatim>\<open>null\<close> nor \<^verbatim>\<open>undefined\<close>, also one with \<^verbatim>\<open>success\<close> false,
  it returns \<^verbatim>\<open>healthy\<close> with the message of the data when that is truthy and
  \<^verbatim>\<open>API is healthy\<close> otherwise. When the data is \<^verbatim>\<open>null\<close> or \<^verbatim>\<open>undefined\<close> it
  returns \<^verbatim>\<open>unhealthy\<close>.
\<close>

theorem healthCheck_ignores_success:
  "tr healthRequest = Resolved env \<Longrightarrow>
     (\<not> nullish (data env) \<longrightarrow>
        healthCheck tr now
          = ([healthRequest],
             Inr \<lparr>health_status = ''healthy'',
                  health_message =
                    (if truthy (getProp (data env) ''message'')
                     then getProp (data env) ''message'' else String ''API is healthy''),
                  timestamp = now,
                  apiVersion = getProp (data env) ''apiVersion'',
                  accountId = getProp (data env) ''accountId''\<rparr>)) \<and>
     (nullish (data env) \<longrightarrow>
        (\<exists>h. healthCheck tr now = ([healthRequest], Inr h) \<and> health_status h = ''unhealthy''))"
  by (simp add: healthCheck_def healthCheckTry_def http_defs healthRequest_def)

theorem healthCheck_ignores_success_witness:
  "failedWithData healthRequest
     = Resolved \<lparr>data = Object [(''message'', String ''degraded'')], success = False,
                 error_text = Some ''Quota exceeded'', envelope_requestId = None\<rparr>
   \<and> healthCheck failedWithData 5
     = ([healthRequest],
        Inr \<lparr>health_status = ''healthy'', health_message = String ''degraded'',
             timestamp = 5, apiVersion = Undefined, accountId = Undefined\<rparr>)
   \<and> (\<exists>h. healthCheck failedWithoutData 5 = ([healthRequest], Inr h)
            \<and> health_status h = ''unhealthy'')"
  using healthCheck_ignores_success [of failedWithData
          "\<lparr>data = Object [(''message'', String ''degraded'')], success = False,
            error_text = Some ''Quota exceeded'', envelope_requestId = None\<rparr>" 5]
        healthCheck_ignores_success [of failedWithoutData
          "\<lparr>data = Undefined, success = False, error_text = Some ''Service unavailable'',
            envelope_requestId = None\<rparr>" 5]
  by (simp add: failedWithData_def failedWithoutData_def)

section \<open>Properties of create\<close>

text \<open>
  What holds of the check of \<^verbatim>\<open>expirationMinutes\<close>: a persistent address with any
  \<^verbatim>\<open>expirationMinutes\<close> other than \<^verbatim>\<open>undefined\<close> is refused before any request,
  and so is every \<^verbatim>\<open>expirationMinutes\<close> that is not a number or is a number at most
  zero.
\<close>

lemma create_persistent_with_expiration:
  "getProp options ''type'' = String ''persistent'' \<Longrightarrow>
   getProp options ''expirationMinutes'' \<noteq> Undefined \<Longrightarrow>
   \<exists>msg. address_create tr options = ([], Inl (ValidationError msg None None))"
  by (auto simp: address_create_def validateCreateOptions_def)

lemma create_expiration_not_positive:
  "getProp options ''expirationMinutes'' \<noteq> Undefined \<Longrightarrow>
   getProp options ''expirationMinutes'' \<noteq> Number NaN \<Longrightarrow>
   \<forall>n. getProp options ''expirationMinutes'' = Number n \<longrightarrow> \<not> num_positive n \<Longrightarrow>
   \<exists>msg. address_create tr options = ([], Inl (ValidationError msg None None))"
proof -
  assume a: "getProp options ''expirationMinutes'' \<noteq> Undefined"
    "getProp options ''expirationMinutes'' \<noteq> Number NaN"
    "\<forall>n. getProp options ''expirationMinutes'' = Number n \<longrightarrow> \<not> num_positive n"
  have "notNumberOrLeZero (getProp options ''expirationMinutes'')"
  proof (cases "getProp options ''expirationMinutes''")
    case (Number n)
    with a show ?thesis by (cases n) auto
  qed auto
  with a(1) show ?thesis
    by (auto simp: address_create_def validateCreateOptions_def)
qed

text \<open>
  C5 fails on the code at \<^verbatim>\<open>NaN\<close>: \<^verbatim>\<open>expirationMinutes: NaN\<close> is present and is not
  a positive number, yet \<^verbatim>\<open>typeof NaN\<close> is \<^verbatim>\<open>number\<close> and \<^verbatim>\<open>NaN <= 0\<close> is false,
  so \<^verbatim>\<open>validateCreateOptions\<close> passes and \<^verbatim>\<open>create\<close> issues the request. The
  sibling check in \<^verbatim>\<open>extend\<close> refuses \<^verbatim>\<open>NaN\<close>.
\<close>

theorem create_accepts_NaN_expiration:
  "getProp nanExpiration ''expirationMinutes'' = Number NaN
   \<and> \<not> num_positive NaN
   \<and> validateCreateOptions nanExpiration = Inr ()
   \<and> fst (address_create refusing nanExpiration)
       = [\<lparr>http_method = ''POST'', endpoint = ''/email-addresses'', query = [],
           body = Object [(''type'', String ''temporary''), (''prefix'', Undefined),
                          (''domain'', Undefined), (''expirationMinutes'', Number NaN),
                          (''metadata'', Undefined)]\<rparr>]
   \<and> address_extend refusing (String ''e1'') NaN
       = ([], Inl (ValidationError ''Additional minutes must be a positive number'' None None))"
  by (simp add: nanExpiration_def validateCreateOptions_def address_create_def address_extend_def
        addressResult_def http_post_def httpRequest_def refusing_def)


theorem create_accepts_NaN_expiration_witness:
  "validateCreateOptions nanExpiration = Inr ()
   \<and> fst (address_create refusing nanExpiration) \<noteq> []"
  using create_accepts_NaN_expiration by simp

section \<open>Properties of send\<close>

lemma validateEmailRecipient_throws:
  "validateEmailRecipient r f = Inl e \<Longrightarrow> \<exists>msg. e = ValidationError msg None None"
  by (auto simp: validateEmailRecipient_def split: if_splits)

lemma validateEmailAttachment_throws:
  "validateEmailAttachment a f = Inl e \<Longrightarrow> \<exists>msg. e = ValidationError msg None None"
  by (auto simp: validateEmailAttachment_def split: if_splits)

lemma forEachIndexed_throws:
  "(\<And>x f e. validate x f = Inl e \<Longrightarrow> \<exists>msg. e = ValidationError msg None None) \<Longrightarrow>
   forEachIndexed validate name i xs = Inl e \<Longrightarrow> \<exists>msg. e = ValidationError msg None None"
  by (induction xs arbitrary: i) (auto split: sum.splits)

lemma validateOptionalRecipients_throws:
  "arrayWhenPresent v \<Longrightarrow> validateOptionalRecipients name v = Inl e \<Longrightarrow>
   \<exists>msg. e = ValidationError msg None None"
  using forEachIndexed_throws [of validateEmailRecipient name 0 _ e] validateEmailRecipient_throws
  by (cases v) (auto simp: validateOptionalRecipients_def arrayWhenPresent_def split: if_splits)

lemma validateAttachments_throws:
  "validateAttachments v = Inl e \<Longrightarrow> \<exists>msg. e = ValidationError msg None None"
  using forEachIndexed_throws [of validateEmailAttachment "''attachments''" 0 _ e]
        validateEmailAttachment_throws
  by (auto simp: validateAttachments_def split: if_splits)

lemma validateSendContent_throws:
  "validateSendContent now options = Inl e \<Longrightarrow> \<exists>msg. e = ValidationError msg None None"
  using validateAttachments_throws [of "getProp options ''attachments''" e]
  by (auto simp: validateSendContent_def split: if_splits sum.splits)

lemma validateSendOptions_throws:
  "arrayWhenPresent (getProp options ''cc'') \<Longrightarrow> arrayWhenPresent (getProp options ''bcc'') \<Longrightarrow>
   validateSendOptions now options = Inl e \<Longrightarrow> \<exists>msg. e = ValidationError msg None None"
  using forEachIndexed_throws [of validateEmailRecipient "''to''" 0 _ e] validateEmailRecipient_throws
    validateOptionalRecipients_throws [of "getProp options ''cc''" "''cc''" e]
    validateOptionalRecipients_throws [of "getProp options ''bcc''" "''bcc''" e]
    validateSendContent_throws [of now options e]
  by (auto simp: validateSendOptions_def split: if_splits sum.splits)

lemma send_rejected_by_validation:
  "validateSendOptions now options = Inl e \<Longrightarrow> email_send tr now options = ([], Inl e)"
  by (simp add: email_send_def)

text \<open>A call that does not pass validation throws before any request.\<close>

lemma send_not_validated:
  assumes "validateSendOptions now options \<noteq> Inr ()"
  shows "(\<exists>e. email_send tr now options = ([], Inl e)) \<and>
         (arrayWhenPresent (getProp options ''cc'') \<and> arrayWhenPresent (getProp options ''bcc'') \<longrightarrow>
            (\<exists>msg. email_send tr now options = ([], Inl (ValidationError msg None None))))"
proof -
  obtain e where e: "validateSendOptions now options = Inl e"
    using assms by (cases "validateSendOptions now options") auto
  then have "email_send tr now options = ([], Inl e)"
    by (rule send_rejected_by_validation)
  then show ?thesis
    using validateSendOptions_throws [of options now e] e by auto
qed

lemma bad_email_rejected:
  assumes "hasBadEmail r"
  shows "validateEmailRecipient r f
           = Inl (ValidationError
                    (f @ ''.email'' @ (if theString (getProp r ''email'') = [] then '' is required''
                                       else '' is not a valid email address'')) None None)"
proof -
  obtain s where s: "getProp r ''email'' = String s" "\<not> regexTest emailRegex s"
    using assms by (auto simp: hasBadEmail_def split: jsval.splits)
  then obtain kvs where "r = Object kvs"
    by (cases r) auto
  with s show ?thesis
    by (auto simp: validateEmailRecipient_def)
qed

lemma forEachIndexed_passes:
  "forEachIndexed validate name i xs = Inr () \<Longrightarrow> x \<in> set xs \<Longrightarrow> \<exists>f. validate x f = Inr ()"
  by (induction xs arbitrary: i) (auto split: sum.splits)

lemma forEachIndexed_first_failure:
  "\<forall>p\<in>set pre. \<forall>f. validate p f = Inr () \<Longrightarrow>
   validate r (name @ ''['' @ toString (i + length pre) @ '']'') = Inl e \<Longrightarrow>
   forEachIndexed validate name i (pre @ r # post) = Inl e"
  by (induction pre arbitrary: i) auto

lemma recipients_with_bad_email:
  "hasBadEmail r \<Longrightarrow> r \<in> set xs \<Longrightarrow> forEachIndexed validateEmailRecipient name i xs \<noteq> Inr ()"
  using forEachIndexed_passes [of validateEmailRecipient name i xs r] bad_email_rejected [of r]
  by auto

lemma optional_recipients_with_bad_email:
  "hasBadEmail r \<Longrightarrow> r \<in> set (elements v) \<Longrightarrow> validateOptionalRecipients name v \<noteq> Inr ()"
  using recipients_with_bad_email [of r _ name 0]
  by (cases v) (auto simp: validateOptionalRecipients_def)

lemma validateSendOptions_bad_email:
  assumes "hasBadEmail r"
    and "r \<in> set (elements (getProp options ''to'')) \<union> set (elements (getProp options ''cc''))
             \<union> set (elements (getProp options ''bcc''))"
  shows "validateSendOptions now options \<noteq> Inr ()"
  using assms recipients_with_bad_email [of r "elements (getProp options ''to'')" "''to''" 0]
    optional_recipients_with_bad_email [of r "getProp options ''cc''" "''cc''"]
    optional_recipients_with_bad_email [of r "getProp options ''bcc''" "''bcc''"]
  by (auto simp: validateSendOptions_def split: if_splits sum.splits)

lemma first_bad_recipient:
  assumes "hasBadEmail r" and "\<forall>p\<in>set pre. \<forall>f. validateEmailRecipient p f = Inr ()"
  shows "forEachIndexed validateEmailRecipient name 0 (pre @ r # post)
           = Inl (ValidationError
                    (name @ ''['' @ toString (length pre) @ ''].email''
                     @ (if theString (getProp r ''email'') = [] then '' is required''
                        else '' is not a valid email address'')) None None)"
  using forEachIndexed_first_failure [OF assms(2), of r name 0 _ post]
        bad_email_rejected [OF assms(1), of "name @ ''['' @ toString (length pre) @ '']''"]
  by simp

lemma regex_examples:
  "regexTest emailRegex ''ann@example.com''"
  "regexTest emailRegex ''bob@example.com''"
  "\<not> regexTest emailRegex ''carol.example.com''"
  by code_simp+

lemma toString_small:
  "toString 0 = ''0''" "toString (Suc 0) = ''1''" "toString (Suc (Suc 0)) = ''2''"
  by code_simp+

lemma trim_Hello: "trim ''Hello'' = ''Hello''"
  by code_simp

lemma validateSendContent_past:
  "getProp options ''scheduledAt'' = Date (Some t) \<Longrightarrow> t \<le> now \<Longrightarrow>
   validateSendContent now options \<noteq> Inr ()"
  by (auto simp: validateSendContent_def split: if_splits sum.splits)

lemma validateSendContent_no_content:
  "\<not> truthy (getProp options ''text'') \<Longrightarrow> \<not> truthy (getProp options ''html'') \<Longrightarrow>
   validateSendContent now options \<noteq> Inr ()"
  by (auto simp: validateSendContent_def split: if_splits sum.splits)

lemma validateSendOptions_content:
  "validateSendOptions now options = Inr () \<Longrightarrow> validateSendContent now options = Inr ()"
  by (auto simp: validateSendOptions_def split: if_splits sum.splits)

text \<open>
  C4, as the claim states it, fails: the recipients are checked after the sender, so a call
  with no sender and a malformed \<^verbatim>\<open>to[0].email\<close> throws a \<^verbatim>\<open>ValidationError\<close> that
  names no recipient.
\<close>

theorem send_invalid_recipient_counterexample:
  "hasBadEmail carol
   \<and> getProp noSenderBadRecipient ''to'' = Array [carol]
   \<and> email_send refusing 0 noSenderBadRecipient
       = ([], Inl (ValidationError ''From email ID is required'' None None))
   \<and> \<not> includesStr ''From email ID is required'' ''to[0]''"
  using regex_examples
  by (simp add: hasBadEmail_def carol_def noSenderBadRecipient_def email_send_def
        validateSendOptions_def del: regexTest.simps)

text \<open>
  C4, amended. A send call in which some recipient of \<^verbatim>\<open>to\<close>, \<^verbatim>\<open>cc\<close> or
  \<^verbatim>\<open>bcc\<close> has an email string that does not match the pattern throws before any request
  is issued, and what it throws is a \<^verbatim>\<open>ValidationError\<close> when \<^verbatim>\<open>cc\<close> and
  \<^verbatim>\<open>bcc\<close> are arrays when present. The message names the path of that recipient's
  email (\<^verbatim>\<open>to[i].email\<close>, \<^verbatim>\<open>cc[i].email\<close>, \<^verbatim>\<open>bcc[i].email\<close>) when the checks
  that come before it pass: the options are an object, the sender is a non-empty string,
  every recipient before it in its list is valid, and for \<^verbatim>\<open>cc\<close> and \<^verbatim>\<open>bcc\<close> the
  lists checked before are valid.
\<close>

theorem send_invalid_recipient:
  assumes "hasBadEmail r"
    and "r \<in> set (elements (getProp options ''to'')) \<union> set (elements (getProp options ''cc''))
             \<union> set (elements (getProp options ''bcc''))"
  shows
    "(\<exists>e. email_send tr now options = ([], Inl e)) \<and>
     (arrayWhenPresent (getProp options ''cc'') \<and> arrayWhenPresent (getProp options ''bcc'') \<longrightarrow>
        (\<exists>msg. email_send tr now options = ([], Inl (ValidationError msg None None)))) \<and>
     (truthy options \<and> typeof options = ''object''
      \<and> truthy (getProp options ''fromEmailId'')
      \<and> typeof (getProp options ''fromEmailId'') = ''string'' \<longrightarrow>
        (\<forall>pre post.
           getProp options ''to'' = Array (pre @ r # post)
           \<and> (\<forall>p\<in>set pre. \<forall>f. validateEmailRecipient p f = Inr ()) \<longrightarrow>
           email_send tr now options
             = ([], Inl (ValidationError
                  (''to['' @ toString (length pre) @ ''].email''
                   @ (if theString (getProp r ''email'') = [] then '' is required''
                      else '' is not a valid email address'')) None None))) \<and>
        (\<forall>pre post.
           isArray (getProp options ''to'') \<and> elements (getProp options ''to'') \<noteq> []
           \<and> forEachIndexed validateEmailRecipient ''to'' 0 (elements (getProp options ''to'')) = Inr ()
           \<and> getProp options ''cc'' = Array (pre @ r # post)
           \<and> (\<forall>p\<in>set pre. \<forall>f. validateEmailRecipient p f = Inr ()) \<longrightarrow>
           email_send tr now options
             = ([], Inl (ValidationError
                  (''cc['' @ toString (length pre) @ ''].email''
                   @ (if theString (getProp r ''email'') = [] then '' is required''
                      else '' is not a valid email address'')) None None))) \<and>
        (\<forall>pre post.
           isArray (getProp options ''to'') \<and> elements (getProp options ''to'') \<noteq> []
           \<and> forEachIndexed validateEmailRecipient ''to'' 0 (elements (getProp options ''to'')) = Inr ()
           \<and> validateOptionalRecipients ''cc'' (getProp options ''cc'') = Inr ()
           \<and> getProp options ''bcc'' = Array (pre @ r # post)
           \<and> (\<forall>p\<in>set pre. \<forall>f. validateEmailRecipient p f = Inr ()) \<longrightarrow>
           email_send tr now options
             = ([], Inl (ValidationError
                  (''bcc['' @ toString (length pre) @ ''].email''
                   @ (if theString (getProp r ''email'') = [] then '' is required''
                      else '' is not a valid email address'')) None None))))"
proof (intro conjI impI allI)
  show "\<exists>e. email_send tr now options = ([], Inl e)"
    using send_not_validated [OF validateSendOptions_bad_email [OF assms]] by blast
next
  assume "arrayWhenPresent (getProp options ''cc'') \<and> arrayWhenPresent (getProp options ''bcc'')"
  then show "\<exists>msg. email_send tr now options = ([], Inl (ValidationError msg None None))"
    using send_not_validated [OF validateSendOptions_bad_email [OF assms]] by blast
next
  fix pre post
  assume o: "truthy options \<and> typeof options = ''object''
      \<and> truthy (getProp options ''fromEmailId'')
      \<and> typeof (getProp options ''fromEmailId'') = ''string''"
    and t: "getProp options ''to'' = Array (pre @ r # post)
           \<and> (\<forall>p\<in>set pre. \<forall>f. validateEmailRecipient p f = Inr ())"
  show "email_send tr now options
             = ([], Inl (ValidationError
                  (''to['' @ toString (length pre) @ ''].email''
                   @ (if theString (getProp r ''email'') = [] then '' is required''
                      else '' is not a valid email address'')) None None))"
    using o t first_bad_recipient [OF assms(1), of pre "''to''" post]
    by (simp add: email_send_def validateSendOptions_def)
next
  fix pre post
  assume o: "truthy options \<and> typeof options = ''object''
      \<and> truthy (getProp options ''fromEmailId'')
      \<and> typeof (getProp options ''fromEmailId'') = ''string''"
    and t: "isArray (getProp options ''to'') \<and> elements (getProp options ''to'') \<noteq> []
           \<and> forEachIndexed validateEmailRecipient ''to'' 0 (elements (getProp options ''to'')) = Inr ()
           \<and> getProp options ''cc'' = Array (pre @ r # post)
           \<and> (\<forall>p\<in>set pre. \<forall>f. validateEmailRecipient p f = Inr ())"
  then have "truthy (getProp options ''to'')"
    by (cases "getProp options ''to''") auto
  then show "email_send tr now options
             = ([], Inl (ValidationError
                  (''cc['' @ toString (length pre) @ ''].email''
                   @ (if theString (getProp r ''email'') = [] then '' is required''
                      else '' is not a valid email address'')) None None))"
    using o t first_bad_recipient [OF assms(1), of pre "''cc''" post]
    by (simp add: email_send_def validateSendOptions_def validateOptionalRecipients_def)
next
  fix pre post
  assume o: "truthy options \<and> typeof options = ''object''
      \<and> truthy (getProp options ''fromEmailId'')
      \<and> typeof (getProp options ''fromEmailId'') = ''string''"
    and t: "isArray (getProp options ''to'') \<and> elements (getProp options ''to'') \<noteq> []
           \<and> forEachIndexed validateEmailRecipient ''to'' 0 (elements (getProp options ''to'')) = Inr ()
           \<and> validateOptionalRecipients ''cc'' (getProp options ''cc'') = Inr ()
           \<and> getProp options ''bcc'' = Array (pre @ r # post)
           \<and> (\<forall>p\<in>set pre. \<forall>f. validateEmailRecipient p f = Inr ())"
  then have "truthy (getProp options ''to'')"
    by (cases "getProp options ''to''") auto
  then show "email_send tr now options
             = ([], Inl (ValidationError
                  (''bcc['' @ toString (length pre) @ ''].email''
                   @ (if theString (getProp r ''email'') = [] then '' is required''
                      else '' is not a valid email address'')) None None))"
    using o t first_bad_recipient [OF assms(1), of pre "''bcc''" post]
    by (simp add: email_send_def validateSendOptions_def validateOptionalRecipients_def)
qed

theorem send_invalid_recipient_witness:
  "hasBadEmail carol
   \<and> carol \<in> set (elements (getProp threeRecipients ''to''))
   \<and> email_send refusing 0 threeRecipients
       = ([], Inl (ValidationError ''to[2].email is not a valid email address'' None None))"
  using regex_examples toString_small
    send_invalid_recipient [of carol threeRecipients refusing 0]
  by (simp add: hasBadEmail_def carol_def threeRecipients_def email_send_def
        validateSendOptions_def validateEmailRecipient_def del: regexTest.simps)

text \<open>
  C7. A send call whose \<^verbatim>\<open>scheduledAt\<close> is a date not after the instant of validation
  throws before any request is issued, and what it throws is a \<^verbatim>\<open>ValidationError\<close>
  when \<^verbatim>\<open>cc\<close> and \<^verbatim>\<open>bcc\<close> are arrays when present.
\<close>

theorem send_past_schedule:
  assumes "getProp options ''scheduledAt'' = Date (Some t)" and "t \<le> now"
  shows "(\<exists>e. email_send tr now options = ([], Inl e)) \<and>
         (arrayWhenPresent (getProp options ''cc'') \<and> arrayWhenPresent (getProp options ''bcc'') \<longrightarrow>
            (\<exists>msg. email_send tr now options = ([], Inl (ValidationError msg None None))))"
proof -
  have "validateSendOptions now options \<noteq> Inr ()"
    using validateSendContent_past [OF assms] validateSendOptions_content by blast
  then show ?thesis
    by (rule send_not_validated)
qed

theorem send_past_schedule_witness:
  "getProp pastSchedule ''scheduledAt'' = Date (Some 1000) \<and> (1000 :: int) \<le> 2000
   \<and> arrayWhenPresent (getProp pastSchedule ''cc'')
   \<and> arrayWhenPresent (getProp pastSchedule ''bcc'')
   \<and> email_send refusing 2000 pastSchedule
       = ([], Inl (ValidationError ''Scheduled time must be in the future'' None None))
   \<and> email_send refusing 1000 pastSchedule
       = ([], Inl (ValidationError ''Scheduled time must be in the future'' None None))"
  using regex_examples toString_small trim_Hello
    send_past_schedule [of pastSchedule 1000 2000 refusing]
  by (simp add: pastSchedule_def arrayWhenPresent_def email_send_def validateSendOptions_def
        validateEmailRecipient_def validateOptionalRecipients_def validateSendContent_def
        validateAttachments_def del: regexTest.simps)

text \<open>
  Two calls outside the reach of the statement above. A \<^verbatim>\<open>scheduledAt\<close> that is an
  invalid date compares false with every instant, passes validation, and makes
  \<^verbatim>\<open>toISOString\<close> throw a \<^verbatim>\<open>RangeError\<close> while the request body is built. A
  \<^verbatim>\<open>cc\<close> that is truthy and neither an array nor a buffer has no
  \<^verbatim>\<open>forEach\<close>. Neither call issues a request.
\<close>

lemma send_invalid_date:
  "email_send refusing 2000 invalidSchedule = ([], Inl (RangeError ''Invalid time value''))"
  using regex_examples toString_small trim_Hello
  by (simp add: invalidSchedule_def email_send_def validateSendOptions_def
        validateEmailRecipient_def validateOptionalRecipients_def validateSendContent_def
        validateAttachments_def sendRequestBody_def attachmentsOfBody_def toISOString_def
        del: regexTest.simps)

lemma send_cc_not_array:
  "email_send refusing 2000 ccNotArray
     = ([], Inl (TypeError ''options.cc.forEach is not a function''))"
  using regex_examples toString_small
  by (simp add: ccNotArray_def email_send_def validateSendOptions_def
        validateEmailRecipient_def validateOptionalRecipients_def del: regexTest.simps)

text \<open>
  C8, as the claim states it, fails: the content is checked after the sender, the
  recipients and the subject, so a call with neither text nor HTML and an empty
  \<^verbatim>\<open>to\<close> throws a \<^verbatim>\<open>ValidationError\<close> whose message is about the recipients.
\<close>

theorem send_without_content_counterexample:
  "\<not> truthy (getProp noRecipientsNoContent ''text'')
   \<and> \<not> truthy (getProp noRecipientsNoContent ''html'')
   \<and> email_send refusing 0 noRecipientsNoContent
       = ([], Inl (ValidationError ''At least one recipient is required'' None None))
   \<and> \<not> includesStr ''At least one recipient is required'' ''content''"
  by (simp add: noRecipientsNoContent_def email_send_def validateSendOptions_def)

text \<open>
  C8, amended. A send call with neither text nor HTML (both falsy) throws before any
  request is issued, and what it throws is a \<^verbatim>\<open>ValidationError\<close> when \<^verbatim>\<open>cc\<close> and
  \<^verbatim>\<open>bcc\<close> are arrays when present. Its message is
  \<^verbatim>\<open>Either text or HTML content is required\<close> when the checks that come before the
  content pass: options, sender, recipients of \<^verbatim>\<open>to\<close>, \<^verbatim>\<open>cc\<close> and \<^verbatim>\<open>bcc\<close>,
  and subject.
\<close>

theorem send_without_content:
  assumes "\<not> truthy (getProp options ''text'')" and "\<not> truthy (getProp options ''html'')"
  shows
    "(\<exists>e. email_send tr now options = ([], Inl e)) \<and>
     (arrayWhenPresent (getProp options ''cc'') \<and> arrayWhenPresent (getProp options ''bcc'') \<longrightarrow>
        (\<exists>msg. email_send tr now options = ([], Inl (ValidationError msg None None)))) \<and>
     (truthy options \<and> typeof options = ''object''
      \<and> truthy (getProp options ''fromEmailId'')
      \<and> typeof (getProp options ''fromEmailId'') = ''string''
      \<and> isArray (getProp options ''to'') \<and> elements (getProp options ''to'') \<noteq> []
      \<and> forEachIndexed validateEmailRecipient ''to'' 0 (elements (getProp options ''to'')) = Inr ()
      \<and> validateOptionalRecipients ''cc'' (getProp options ''cc'') = Inr ()
      \<and> validateOptionalRecipients ''bcc'' (getProp options ''bcc'') = Inr ()
      \<and> truthy (getProp options ''subject'')
      \<and> typeof (getProp options ''subject'') = ''string''
      \<and> trim (theString (getProp options ''subject'')) \<noteq> [] \<longrightarrow>
        email_send tr now options
          = ([], Inl (ValidationError ''Either text or HTML content is required'' None None)))"
proof (intro conjI impI)
  have nv: "validateSendOptions now options \<noteq> Inr ()"
    using validateSendContent_no_content [OF assms] validateSendOptions_content by blast
  show "\<exists>e. email_send tr now options = ([], Inl e)"
    using send_not_validated [OF nv] by blast
  show "\<exists>msg. email_send tr now options = ([], Inl (ValidationError msg None None))"
    if "arrayWhenPresent (getProp options ''cc'') \<and> arrayWhenPresent (getProp options ''bcc'')"
    using send_not_validated [OF nv] that by blast
next
  assume a: "truthy options \<and> typeof options = ''object''
      \<and> truthy (getProp options ''fromEmailId'')
      \<and> typeof (getProp options ''fromEmailId'') = ''string''
      \<and> isArray (getProp options ''to'') \<and> elements (getProp options ''to'') \<noteq> []
      \<and> forEachIndexed validateEmailRecipient ''to'' 0 (elements (getProp options ''to'')) = Inr ()
      \<and> validateOptionalRecipients ''cc'' (getProp options ''cc'') = Inr ()
      \<and> validateOptionalRecipients ''bcc'' (getProp options ''bcc'') = Inr ()
      \<and> truthy (getProp options ''subject'')
      \<and> typeof (getProp options ''subject'') = ''string''
      \<and> trim (theString (getProp options ''subject'')) \<noteq> []"
  then have "truthy (getProp options ''to'')"
    by (cases "getProp options ''to''") auto
  with a assms show "email_send tr now options
          = ([], Inl (ValidationError ''Either text or HTML content is required'' None None))"
    by (simp add: email_send_def validateSendOptions_def validateSendContent_def)
qed

theorem send_without_content_witness:
  "\<not> truthy (getProp noContent ''text'') \<and> \<not> truthy (getProp noContent ''html'')
   \<and> arrayWhenPresent (getProp noContent ''cc'') \<and> arrayWhenPresent (getProp noContent ''bcc'')
   \<and> email_send refusing 0 noContent
       = ([], Inl (ValidationError ''Either text or HTML content is required'' None None))"
  using regex_examples toString_small trim_Hello
    send_without_content [of noContent refusing 0]
  by (simp add: noContent_def arrayWhenPresent_def validateEmailRecipient_def
        validateOptionalRecipients_def del: regexTest.simps)

end
